theory Spec2Isabelle
  imports Complex_Main "HOL-Library.Sublist"
begin

section \<open>Python values, errors and text files\<close>

text \<open>
  Exceptions of the Python source are values: every \<^verbatim>\<open>raise\<close>, failed
  \<^verbatim>\<open>assert\<close>, missing key, unbound local and bad subscript is a branch that
  returns an error. The string carried by some constructors is the name the exception
  reports (the missing key, attribute or local variable).
\<close>

datatype pyerror =
    AssertionError
  | AttributeError string
  | UnboundLocalError string
  | KeyError string
  | TypeError string
  | IndexError
  | ZeroDivisionError
  | RuntimeError string
  | ValueError string

text \<open>
  A statement sequence that reads and changes a state and may raise: a function from
  the state to the outcome (an error or a value) and the state left behind. The state
  an exception leaves behind is kept, as Python keeps what was written before a raise.
\<close>

type_synonym ('a, 's) prog = "'s \<Rightarrow> (pyerror + 'a) \<times> 's"

definition ret :: "'a \<Rightarrow> ('a, 's) prog" where
  "ret x s = (Inr x, s)"

definition raise :: "pyerror \<Rightarrow> ('a, 's) prog" where
  "raise e s = (Inl e, s)"

definition lift :: "pyerror + 'a \<Rightarrow> ('a, 's) prog" where
  "lift r s = (r, s)"

definition bnd :: "('a, 's) prog \<Rightarrow> ('a \<Rightarrow> ('b, 's) prog) \<Rightarrow> ('b, 's) prog" where
  "bnd m k s = (case m s of (Inl e, s') \<Rightarrow> (Inl e, s') | (Inr x, s') \<Rightarrow> k x s')"

text \<open>
  Numbers in the report dictionaries: Python ints, and floats as the rational number a
  finite float denotes (comparison of Python numbers is exact; NaN and infinities are
  outside the model). What rounds or prints a float is not computed here but taken
  from Python as a parameter: \<^verbatim>\<open>'{:.2f}'.format(x)\<close>, \<^verbatim>\<open>str(x)\<close> and the
  rounded product \<^verbatim>\<open>x * y\<close>.
\<close>

datatype pynum = PyInt int | PyFloat rat

fun num_val :: "pynum \<Rightarrow> rat" where
  "num_val (PyInt i) = of_int i"
| "num_val (PyFloat x) = x"

definition py_less :: "pynum \<Rightarrow> pynum \<Rightarrow> bool" where
  "py_less a b = (num_val a < num_val b)"

record pyfloat =
  fmt_2f :: "pynum \<Rightarrow> string"
  str_float :: "rat \<Rightarrow> string"
  float_mul :: "rat \<Rightarrow> rat \<Rightarrow> rat"

text \<open>\<^verbatim>\<open>str(i)\<close> for a Python int: decimal digits, a leading minus sign.\<close>

fun digits :: "nat \<Rightarrow> string" where
  "digits n =
     (if n < 10 then [''0123456789'' ! n]
      else digits (n div 10) @ [''0123456789'' ! (n mod 10)])"

declare digits.simps [simp del]

definition str_int :: "int \<Rightarrow> string" where
  "str_int i = (if i < 0 then CHR ''-'' # digits (nat (- i)) else digits (nat i))"

definition nl :: char where
  "nl = CHR 0x0A"

text \<open>\<^verbatim>\<open>sep.join(xs)\<close> for a list of strings.\<close>

fun py_join :: "string \<Rightarrow> string list \<Rightarrow> string" where
  "py_join sep [] = []"
| "py_join sep [x] = x"
| "py_join sep (x # y # ys) = x @ sep @ py_join sep (y # ys)"

text \<open>\<^verbatim>\<open>'{}'.format(v)\<close> for a number.\<close>

fun py_str :: "pyfloat \<Rightarrow> pynum \<Rightarrow> string" where
  "py_str P (PyInt i) = str_int i"
| "py_str P (PyFloat x) = str_float P x"

text \<open>\<^verbatim>\<open>d[k]\<close> on a dict: a missing key raises \<^verbatim>\<open>KeyError\<close>.\<close>

definition lookup :: "(string \<rightharpoonup> 'v) \<Rightarrow> string \<Rightarrow> pyerror + 'v" where
  "lookup d k = (case d k of None \<Rightarrow> Inl (KeyError k) | Some v \<Rightarrow> Inr v)"

text \<open>
  \<^verbatim>\<open>template.format(**d)\<close>: the template is its literal pieces and its replacement
  fields \<^verbatim>\<open>{key}\<close> and \<^verbatim>\<open>{key:.2f}\<close>, filled from left to right; the first
  field whose key the dict lacks raises \<^verbatim>\<open>KeyError\<close>.
\<close>

datatype piece = Lit string | Fld string | Fld2f string

fun py_format :: "pyfloat \<Rightarrow> piece list \<Rightarrow> (string \<rightharpoonup> pynum) \<Rightarrow> pyerror + string" where
  "py_format P [] d = Inr []"
| "py_format P (Lit s # ps) d =
     (case py_format P ps d of Inl e \<Rightarrow> Inl e | Inr r \<Rightarrow> Inr (s @ r))"
| "py_format P (Fld k # ps) d =
     (case lookup d k of
        Inl e \<Rightarrow> Inl e
      | Inr v \<Rightarrow> (case py_format P ps d of Inl e \<Rightarrow> Inl e | Inr r \<Rightarrow> Inr (py_str P v @ r)))"
| "py_format P (Fld2f k # ps) d =
     (case lookup d k of
        Inl e \<Rightarrow> Inl e
      | Inr v \<Rightarrow> (case py_format P ps d of Inl e \<Rightarrow> Inl e | Inr r \<Rightarrow> Inr (fmt_2f P v @ r)))"

text \<open>
  \<^verbatim>\<open>s.center(width)\<close>: spaces on both sides up to the width; when the padding is
  odd, the extra space goes to the left exactly when the width is odd too.
\<close>

definition center :: "string \<Rightarrow> nat \<Rightarrow> string" where
  "center s width =
     (if width \<le> length s then s
      else let marg = width - length s;
               left = marg div 2 + (if odd marg \<and> odd width then 1 else 0)
           in replicate left (CHR '' '') @ s @ replicate (marg - left) (CHR '' ''))"

text \<open>\<^verbatim>\<open>xs[i]\<close> on a list: a negative index counts from the end.\<close>

definition py_index :: "'a list \<Rightarrow> int \<Rightarrow> pyerror + 'a" where
  "py_index xs i =
     (let n = int (length xs); j = (if i < 0 then i + n else i)
      in if 0 \<le> j \<and> j < n then Inr (xs ! nat j) else Inl IndexError)"

text \<open>
  The \<^verbatim>\<open>file\<close> argument of the report writers is a text stream that can be read,
  written and repositioned (the writers call \<^verbatim>\<open>seek\<close> and \<^verbatim>\<open>read\<close> on it):
  its content and the position of the next read or write. A write at the position
  replaces what is there and extends the file at its end; a position beyond the end
  is filled with NUL characters first. Writing the empty string changes nothing.
\<close>

record textfile =
  content :: string
  pos :: nat

definition file_seek :: "nat \<Rightarrow> textfile \<Rightarrow> textfile" where
  "file_seek n f = f\<lparr>pos := n\<rparr>"

definition file_seek_end :: "textfile \<Rightarrow> textfile" where
  "file_seek_end f = f\<lparr>pos := length (content f)\<rparr>"

definition file_read :: "textfile \<Rightarrow> string \<times> textfile" where
  "file_read f = (drop (pos f) (content f), f\<lparr>pos := max (pos f) (length (content f))\<rparr>)"

definition file_write :: "string \<Rightarrow> textfile \<Rightarrow> textfile" where
  "file_write s f =
     (if s = [] then f
      else f\<lparr>content := take (pos f) (content f)
                        @ replicate (pos f - length (content f)) (CHR 0x00)
                        @ s
                        @ drop (pos f + length s) (content f),
            pos := pos f + length s\<rparr>)"

text \<open>\<^verbatim>\<open>print(s, file=file, end=ending)\<close>: the text, then the ending.\<close>

definition py_print :: "string \<Rightarrow> string \<Rightarrow> textfile \<Rightarrow> textfile" where
  "py_print s ending f = file_write ending (file_write s f)"

section \<open>write\_result.py: the report writers\<close>

definition print_to :: "string \<Rightarrow> string \<Rightarrow> (unit, textfile) prog" where
  "print_to s ending f = (Inr (), py_print s ending f)"

subsection \<open>print\_wer\_summary\<close>

definition print_wer_summary :: "pyfloat \<Rightarrow> (string \<rightharpoonup> pynum) \<Rightarrow> (unit, textfile) prog" where
  "print_wer_summary P wer_details =
     bnd (lift (py_format P
            [Lit ''%WER '', Fld2f ''WER'', Lit '' [ '', Fld ''num_edits'', Lit '' / '',
             Fld ''num_scored_tokens'', Lit '', '', Fld ''insertions'', Lit '' ins, '',
             Fld ''deletions'', Lit '' del, '', Fld ''substitutions'', Lit '' sub ]'']
            wer_details)) (\<lambda>line1.
     bnd (print_to line1 []) (\<lambda>_.
     bnd (lift (lookup wer_details ''num_scored_sents'')) (\<lambda>n_scored.
     bnd (lift (lookup wer_details ''num_ref_sents'')) (\<lambda>n_refs.
     bnd (print_to (if py_less n_scored n_refs then '' [PARTIAL]'' else []) [nl]) (\<lambda>_.
     bnd (lift (py_format P
            [Lit ''%SER '', Fld2f ''SER'', Lit '' [ '', Fld ''num_erraneous_sents'',
             Lit '' / '', Fld ''num_scored_sents'', Lit '' ]'']
            wer_details)) (\<lambda>line3.
     bnd (print_to line3 [nl]) (\<lambda>_.
     bnd (lift (py_format P
            [Lit ''Scored '', Fld ''num_scored_sents'', Lit '' sentences, '',
             Fld ''num_absent_sents'', Lit '' not present in hyp.'']
            wer_details)) (\<lambda>line4.
     print_to line4 [nl]))))))))"

subsection \<open>Details of one utterance\<close>

text \<open>
  An entry of \<^verbatim>\<open>details_by_utterance\<close> is a dict with a fixed set of keys, made by
  \<^verbatim>\<open>speechbrain.utils.edit_distance.wer_details_by_utterance\<close>; the writers read
  the keys below. An alignment is a list of \<^verbatim>\<open>(op, i, j)\<close>: the edit symbol, the index
  into the reference tokens or \<^verbatim>\<open>None\<close>, the index into the hypothesis tokens or
  \<^verbatim>\<open>None\<close>. Tokens and edit symbols are strings.
\<close>

record utterance =
  key :: string
  scored :: bool
  WER :: pynum
  num_edits :: pynum
  num_ref_tokens :: pynum
  insertions :: pynum
  deletions :: pynum
  substitutions :: pynum
  alignment :: "(string \<times> int option \<times> int option) list"
  ref_tokens :: "string list"
  hyp_tokens :: "string list"

subsection \<open>print\_alignments\<close>

definition print_alignment_header :: "pyfloat \<Rightarrow> utterance \<Rightarrow> (unit, textfile) prog" where
  "print_alignment_header P wer_details =
     bnd (print_to (replicate 80 (CHR ''='')) [nl]) (\<lambda>_.
     print_to
       (key wer_details @ '', %WER '' @ fmt_2f P (WER wer_details)
          @ '' [ '' @ py_str P (num_edits wer_details)
          @ '' / '' @ py_str P (num_ref_tokens wer_details)
          @ '', '' @ py_str P (insertions wer_details) @ '' ins, ''
          @ py_str P (deletions wer_details) @ '' del, ''
          @ py_str P (substitutions wer_details) @ '' sub ]'')
       [nl])"

text \<open>
  One round of the loop of \<^verbatim>\<open>_print_alignment\<close>: the three strings of a column,
  each centred to the length of the longest. \<^verbatim>\<open>a\<close> is indexed by \<^verbatim>\<open>i\<close>,
  \<^verbatim>\<open>b\<close> by \<^verbatim>\<open>j\<close>; \<^verbatim>\<open>None\<close> stands for the empty symbol.
\<close>

definition pad_column ::
  "string \<Rightarrow> string list \<Rightarrow> string list \<Rightarrow> string \<times> int option \<times> int option \<Rightarrow>
   pyerror + (string \<times> string \<times> string)" where
  "pad_column empty_symbol a b col =
     (case col of (op_string, i, j) \<Rightarrow>
        (case (case i of None \<Rightarrow> Inr empty_symbol | Some i' \<Rightarrow> py_index a i') of
           Inl e \<Rightarrow> Inl e
         | Inr a_string \<Rightarrow>
             (case (case j of None \<Rightarrow> Inr empty_symbol | Some j' \<Rightarrow> py_index b j') of
                Inl e \<Rightarrow> Inl e
              | Inr b_string \<Rightarrow>
                  (let pad_length =
                         max (length op_string) (max (length a_string) (length b_string))
                   in Inr (center a_string pad_length, center b_string pad_length,
                           center op_string pad_length)))))"

text \<open>The loop: the state is \<^verbatim>\<open>(a_padded, b_padded, ops_padded)\<close>.\<close>

fun pad_alignment ::
  "string \<Rightarrow> string list \<Rightarrow> string list \<Rightarrow> (string \<times> int option \<times> int option) list \<Rightarrow>
   string list \<times> string list \<times> string list \<Rightarrow>
   pyerror + (string list \<times> string list \<times> string list)" where
  "pad_alignment empty_symbol a b [] acc = Inr acc"
| "pad_alignment empty_symbol a b (col # rest) (a_padded, b_padded, ops_padded) =
     (case pad_column empty_symbol a b col of
        Inl e \<Rightarrow> Inl e
      | Inr (a_cell, b_cell, op_cell) \<Rightarrow>
          pad_alignment empty_symbol a b rest
            (a_padded @ [a_cell], b_padded @ [b_cell], ops_padded @ [op_cell]))"

definition print_alignment ::
  "(string \<times> int option \<times> int option) list \<Rightarrow> string list \<Rightarrow> string list \<Rightarrow> string \<Rightarrow>
   string \<Rightarrow> (unit, textfile) prog" where
  "print_alignment alignm a b empty_symbol separator =
     bnd (lift (pad_alignment empty_symbol a b alignm ([], [], [])))
       (\<lambda>(a_padded, b_padded, ops_padded).
     bnd (print_to (py_join separator a_padded) [nl]) (\<lambda>_.
     bnd (print_to (py_join separator ops_padded) [nl]) (\<lambda>_.
     print_to (py_join separator b_padded) [nl])))"

text \<open>
  The loop of \<^verbatim>\<open>print_alignments\<close> from position \<^verbatim>\<open>index\<close> of the enumeration.
  \<^verbatim>\<open>index % total_iters\<close> raises \<^verbatim>\<open>ZeroDivisionError\<close> when \<^verbatim>\<open>total_iters\<close> is
  zero. \<^verbatim>\<open>sample_separator\<close> is a string or \<^verbatim>\<open>None\<close>; it is printed when it is
  a non-empty string.
\<close>

fun print_alignments_from ::
  "pyfloat \<Rightarrow> string \<Rightarrow> string \<Rightarrow> bool \<Rightarrow> string option \<Rightarrow> int \<Rightarrow> nat \<Rightarrow>
   utterance list \<Rightarrow> (unit, textfile) prog" where
  "print_alignments_from P empty_symbol separator print_header sample_separator total_iters
     index [] = ret ()"
| "print_alignments_from P empty_symbol separator print_header sample_separator total_iters
     index (dets # rest) =
     (if total_iters = 0 then raise ZeroDivisionError
      else
        bnd (if int index mod total_iters = 0 then
               (if scored dets then
                  bnd (if print_header then print_alignment_header P dets else ret ()) (\<lambda>_.
                  bnd (print_alignment (alignment dets) (ref_tokens dets) (hyp_tokens dets)
                         empty_symbol separator) (\<lambda>_.
                  (case sample_separator of
                     None \<Rightarrow> ret ()
                   | Some s \<Rightarrow> if s \<noteq> [] then print_to s [nl] else ret ())))
                else ret ())
             else ret ()) (\<lambda>_.
        print_alignments_from P empty_symbol separator print_header sample_separator
          total_iters (Suc index) rest))"

definition print_alignments ::
  "pyfloat \<Rightarrow> utterance list \<Rightarrow> string \<Rightarrow> string \<Rightarrow> bool \<Rightarrow> string option \<Rightarrow> int \<Rightarrow>
   (unit, textfile) prog" where
  "print_alignments P details_by_utterance empty_symbol separator print_header
     sample_separator total_iters =
     print_alignments_from P empty_symbol separator print_header sample_separator total_iters
       0 details_by_utterance"

subsection \<open>print\_log\_csv\<close>

text \<open>
  The local dict \<^verbatim>\<open>results\<close> gets its keys while the utterances are scanned:
  \<^verbatim>\<open>'ground_truth'\<close> and \<^verbatim>\<open>'target'\<close> hold a string, \<^verbatim>\<open>'prediction'\<close> a list
  of strings. A key that was never assigned is \<open>None\<close> here, and reading it raises
  \<^verbatim>\<open>KeyError\<close>.
\<close>

record results =
  ground_truth :: "string option"
  target :: "string option"
  prediction :: "string list option"

definition results_get :: "string \<Rightarrow> 'v option \<Rightarrow> pyerror + 'v" where
  "results_get k v = (case v of None \<Rightarrow> Inl (KeyError k) | Some x \<Rightarrow> Inr x)"

definition prediction_append :: "string \<Rightarrow> results \<Rightarrow> pyerror + results" where
  "prediction_append x r =
     (case results_get ''prediction'' (prediction r) of
        Inl e \<Rightarrow> Inl e
      | Inr xs \<Rightarrow> Inr (r\<lparr>prediction := Some (xs @ [x])\<rparr>))"

text \<open>The scan of \<^verbatim>\<open>details_by_utterance\<close>; the state is \<^verbatim>\<open>(results, first)\<close>.\<close>

fun collect_results ::
  "string \<Rightarrow> utterance list \<Rightarrow> results \<times> bool \<Rightarrow> pyerror + (results \<times> bool)" where
  "collect_results ident [] (r, first) = Inr (r, first)"
| "collect_results ident (det # rest) (r, first) =
     (if key det = ident then
        (if first then
           (let r1 = (if ground_truth r = None
                      then r\<lparr>ground_truth := Some (py_join '' '' (ref_tokens det))\<rparr>
                      else r)
            in case (if prediction r1 = None
                     then prediction_append (py_join '' '' (hyp_tokens det))
                            (r1\<lparr>prediction := Some []\<rparr>)
                     else Inr r1) of
                 Inl e \<Rightarrow> Inl e
               | Inr r2 \<Rightarrow> collect_results ident rest (r2, False))
         else
           (let r1 = (if target r = None
                      then r\<lparr>target := Some (py_join '' '' (ref_tokens det))\<rparr>
                      else r);
                r2 = (if prediction r1 = None then r1\<lparr>prediction := Some []\<rparr> else r1)
            in case prediction_append (py_join '' '' (hyp_tokens det)) r2 of
                 Inl e \<Rightarrow> Inl e
               | Inr r3 \<Rightarrow> collect_results ident rest (r3, False)))
      else collect_results ident rest (r, first))"

text \<open>
  The header is written when the file has no content. \<^verbatim>\<open>wer\<close> is
  \<^verbatim>\<open>jiwer.wer(reference, hypothesis)\<close>, a float or an exception. The arguments of
  \<^verbatim>\<open>format\<close> are evaluated from left to right, before anything is printed.
\<close>

definition print_csv_header :: "string list \<Rightarrow> (unit, textfile) prog" where
  "print_csv_header header file =
     (let f1 = file_seek 0 file;
          (txt, f2) = file_read f1;
          is_file_empty = (length txt = 0);
          f3 = file_seek_end f2
      in if is_file_empty then print_to (py_join '','' header) [nl] f3 else (Inr (), f3))"

fun print_log_rows ::
  "pyfloat \<Rightarrow> (string \<Rightarrow> string \<Rightarrow> pyerror + rat) \<Rightarrow> string \<Rightarrow> results \<Rightarrow>
   nat \<Rightarrow> string list \<Rightarrow> (unit, textfile) prog" where
  "print_log_rows P wer ident r it [] = ret ()"
| "print_log_rows P wer ident r it (pre # rest) =
     bnd (lift (results_get ''ground_truth'' (ground_truth r))) (\<lambda>gt.
     bnd (lift (results_get ''target'' (target r))) (\<lambda>tg.
     bnd (lift (wer gt pre)) (\<lambda>w1.
     bnd (lift (wer tg pre)) (\<lambda>w2.
     bnd (print_to
            (ident @ '','' @ str_int (int it) @ '','' @ gt @ '','' @ tg @ '','' @ pre @ '',''
               @ str_float P (float_mul P w1 100) @ '',''
               @ str_float P (float_mul P w2 100))
            [nl]) (\<lambda>_.
     print_log_rows P wer ident r (Suc it) rest)))))"

definition print_log_csv ::
  "pyfloat \<Rightarrow> (string \<Rightarrow> string \<Rightarrow> pyerror + rat) \<Rightarrow> utterance list \<Rightarrow> string \<Rightarrow>
   (unit, textfile) prog" where
  "print_log_csv P wer details_by_utterance ident =
     bnd (lift (collect_results ident details_by_utterance
                  (\<lparr>ground_truth = None, target = None, prediction = None\<rparr>, True)))
       (\<lambda>(r, first).
     bnd (print_csv_header
            [''id'', ''iter'', ''ground_truth'', ''target'', ''prediction'', ''gt_wer'',
             ''tg_wer'']) (\<lambda>_.
     bnd (lift (results_get ''prediction'' (prediction r))) (\<lambda>preds.
     print_log_rows P wer ident r 0 preds)))"

subsection \<open>print\_snr\_csv\<close>

text \<open>
  An entry of \<^verbatim>\<open>metrics_detail\<close> is \<^verbatim>\<open>(score, (id, iter_idx))\<close>. The score is
  a float; \<^verbatim>\<open>str_score\<close> is Python's rendering of it by \<^verbatim>\<open>"{}".format\<close>.
\<close>

fun print_snr_rows ::
  "('s \<Rightarrow> string) \<Rightarrow> ('s \<times> string \<times> int) list \<Rightarrow> textfile \<Rightarrow> textfile" where
  "print_snr_rows str_score [] f = f"
| "print_snr_rows str_score ((score, ident, iter_idx) # rest) f =
     print_snr_rows str_score rest
       (py_print (ident @ '','' @ str_int iter_idx @ '','' @ str_score score) [nl] f)"

definition print_snr_csv ::
  "('s \<Rightarrow> string) \<Rightarrow> ('s \<times> string \<times> int) list \<Rightarrow> textfile \<Rightarrow> textfile" where
  "print_snr_csv str_score metrics_detail file =
     (let f1 = file_seek 0 file;
          (txt, f2) = file_read f1;
          is_file_empty = (length txt = 0);
          f3 = file_seek_end f2;
          f4 = (if is_file_empty
                then py_print (py_join '','' [''id'', ''iter'', ''snr'']) [nl] f3
                else f3)
      in print_snr_rows str_score metrics_detail f4)"

section \<open>brain.py: the brains\<close>

subsection \<open>Batches, collaborators and the record of their calls\<close>

datatype stage = TRAIN | VALID | TEST | ATTACK

text \<open>
  A tensor is an object. A value of the type \<open>'t\<close> stands for the tensor object
  itself, the thing a Python variable or a tuple slot refers to, not for the numbers
  it holds: \<^verbatim>\<open>wavs = batch.sig[0]\<close> makes \<^verbatim>\<open>wavs\<close> refer to the tensor that is
  in the batch, and copies nothing. What a tensor holds is part of the world, its
  \<open>tensor_data\<close>, so a collaborator can change a tensor in place
  (\<^verbatim>\<open>x.add_(delta)\<close>, \<^verbatim>\<open>x[:] = y\<close>) while every reference to it stays what it was.
\<close>

record ('t, 'v) tensor_world =
  tensor_data :: "'t \<Rightarrow> 'v"

text \<open>
  A batch carries \<^verbatim>\<open>batch.sig\<close>, the pair of the waveform tensor and the tensor of
  the relative lengths, and whatever else the data pipeline put in it.
\<close>

record 't batch =
  sig :: "'t \<times> 't"

text \<open>
  The methods a subclass overrides (\<^verbatim>\<open>compute_forward\<close>, \<^verbatim>\<open>compute_objectives\<close>),
  the attacker, the optimizer, the gradient scaler and the base class of the training
  framework are collaborators: this code only chooses when to call them. A collaborator
  is a function of the batch object it is handed and of the rest of the world (what
  the tensors hold, model weights, optimizer state, random state); it returns a value
  or raises, and may leave both changed.
\<close>

type_synonym ('a, 'b, 'w) ext = "'b \<times> 'w \<Rightarrow> (pyerror + 'a) \<times> 'b \<times> 'w"

text \<open>
  Every call of a collaborator that returns is recorded, with its arguments and
  its result; a batch argument is recorded as it was when the call was made.
\<close>

datatype ('b, 't, 'p) event =
    Perturb 'b 't
  | ComputeForward 'b stage 'p
  | ComputeObjectives 'p 'b stage bool 't
  | EvaluateBatch 'b stage 't
  | CheckGradients 't bool
  | ZeroGrad
  | Backward 't
  | ScaleBackward 't
  | Unscale
  | OptimizerStep
  | ScalerStep
  | ScalerUpdate
  | AutocastEnter
  | AutocastExit
  | OnEvaluateStart "string option" "string option"
  | OnStageStart stage "int option"
  | ModulesEval
  | OnStageEnd stage rat "int option" "rat option"

text \<open>
  The state a method of a brain runs in: the batch object it was handed, the counter
  \<^verbatim>\<open>self.step\<close>, the world of the collaborators and the calls made so far.
\<close>

record ('b, 't, 'p, 'w) run_state =
  cur_batch :: 'b
  step :: int
  world :: 'w
  calls :: "('b, 't, 'p) event list"

definition call ::
  "('a \<Rightarrow> 'b \<Rightarrow> ('b, 't, 'p) event) \<Rightarrow> ('a, 'b, 'w) ext \<Rightarrow>
   ('a, ('b, 't, 'p, 'w) run_state) prog" where
  "call ev f s =
     (case f (cur_batch s, world s) of
        (Inl e, b', w') \<Rightarrow> (Inl e, s\<lparr>cur_batch := b', world := w'\<rparr>)
      | (Inr r, b', w') \<Rightarrow>
          (Inr r, s\<lparr>cur_batch := b', world := w', calls := calls s @ [ev r (cur_batch s)]\<rparr>))"

definition get_batch :: "('b, ('b, 't, 'p, 'w) run_state) prog" where
  "get_batch s = (Inr (cur_batch s), s)"

definition modify_batch :: "('b \<Rightarrow> 'b) \<Rightarrow> (unit, ('b, 't, 'p, 'w) run_state) prog" where
  "modify_batch g s = (Inr (), s\<lparr>cur_batch := g (cur_batch s)\<rparr>)"

definition get_step :: "(int, ('b, 't, 'p, 'w) run_state) prog" where
  "get_step s = (Inr (step s), s)"

definition set_step :: "int \<Rightarrow> (unit, ('b, 't, 'p, 'w) run_state) prog" where
  "set_step n s = (Inr (), s\<lparr>step := n\<rparr>)"

subsection \<open>ASRBrain and AdvASRBrain\<close>

text \<open>
  \<^verbatim>\<open>ASRBrain\<close> leaves \<^verbatim>\<open>compute_forward(batch, stage)\<close> and
  \<^verbatim>\<open>compute_objectives(predictions, batch, stage, adv)\<close> to its subclasses.
\<close>

record ('b, 't, 'p, 'w) asr_brain =
  compute_forward :: "stage \<Rightarrow> ('p, 'b, 'w) ext"
  compute_objectives :: "'p \<Rightarrow> stage \<Rightarrow> bool \<Rightarrow> ('t, 'b, 'w) ext"

text \<open>
  The attribute \<^verbatim>\<open>self.attacker\<close>: \<^verbatim>\<open>init_attacker\<close> assigns it only when an
  attack class is given, so it may be unset; a subclass or a caller may assign
  \<^verbatim>\<open>None\<close>; otherwise it is an attacker, of which this code calls
  \<^verbatim>\<open>perturb(batch)\<close>.
\<close>

datatype ('b, 't, 'w) attacker_attr = Unset | IsNone | Attacker "('t, 'b, 'w) ext"

text \<open>
  \<^verbatim>\<open>AdvASRBrain\<close>. Taken from the base class of the framework: \<^verbatim>\<open>evaluate_batch\<close>,
  \<^verbatim>\<open>check_gradients\<close>, \<^verbatim>\<open>update_average(loss, avg)\<close> (which reads
  \<^verbatim>\<open>self.step\<close>), the flags \<^verbatim>\<open>auto_mix_prec\<close>, \<^verbatim>\<open>debug\<close> and
  \<^verbatim>\<open>debug_batches\<close>. \<^verbatim>\<open>detach_cpu\<close> is \<^verbatim>\<open>loss.detach().cpu()\<close>.
  \<^verbatim>\<open>effect\<close> is what a call without a result does to the world: the optimizer, the
  scaler, \<^verbatim>\<open>backward\<close>, the autocast context, the stage hooks.
\<close>

record ('b, 't, 'p, 'w) adv_asr_brain = "('b, 't, 'p, 'w) asr_brain" +
  attacker :: "('b, 't, 'w) attacker_attr"
  auto_mix_prec :: bool
  check_gradients :: "'t \<Rightarrow> (bool, 'b, 'w) ext"
  evaluate_batch :: "stage \<Rightarrow> ('t, 'b, 'w) ext"
  update_average :: "'t \<Rightarrow> rat \<Rightarrow> int \<Rightarrow> rat"
  detach_cpu :: "'t \<Rightarrow> 't"
  effect :: "('b, 't, 'p) event \<Rightarrow> (unit, 'b, 'w) ext"
  debug :: bool
  debug_batches :: int

definition act ::
  "('b, 't, 'p, 'w) adv_asr_brain \<Rightarrow> ('b, 't, 'p) event \<Rightarrow>
   (unit, ('b, 't, 'p, 'w) run_state) prog" where
  "act B e = call (\<lambda>_ _. e) (effect B e)"

text \<open>
  \<^verbatim>\<open>AdvASRBrain.__setattr__\<close> works on objects that refer to each other: the brain
  holds its attacker, the attacker holds the brain it attacks. Objects live in a
  store, at addresses; an attribute holds a reference, \<^verbatim>\<open>None\<close> or another value.
  Of an object the store keeps whether it is an instance of \<^verbatim>\<open>AdvASRBrain\<close> and its
  instance attributes.
\<close>

type_synonym addr = nat

datatype 'v pyval = Ref addr | NoneVal | Val 'v

record 'v pyobj =
  is_adv_asr_brain :: bool
  attrs :: "string \<rightharpoonup> 'v pyval"

type_synonym 'v store = "addr \<Rightarrow> 'v pyobj"

text \<open>
  \<^verbatim>\<open>hasattr(obj, name)\<close> and \<^verbatim>\<open>x.name\<close>, for a name that no class defines
  (\<^verbatim>\<open>attacker\<close>, \<^verbatim>\<open>asr_brain\<close>): the instance attributes decide.
\<close>

definition hasattr :: "'v store \<Rightarrow> addr \<Rightarrow> string \<Rightarrow> bool" where
  "hasattr h a name = (attrs (h a) name \<noteq> None)"

fun getattr :: "'v store \<Rightarrow> 'v pyval \<Rightarrow> string \<Rightarrow> pyerror + 'v pyval" where
  "getattr h (Ref a) name =
     (case attrs (h a) name of None \<Rightarrow> Inl (AttributeError name) | Some v \<Rightarrow> Inr v)"
| "getattr h NoneVal name = Inl (AttributeError name)"
| "getattr h (Val x) name = Inl (AttributeError name)"

text \<open>\<^verbatim>\<open>object.__setattr__(obj, name, value)\<close>: the instance attribute is set.\<close>

definition object_setattr :: "'v store \<Rightarrow> addr \<Rightarrow> string \<Rightarrow> 'v pyval \<Rightarrow> 'v store" where
  "object_setattr h a name v = h(a := (h a)\<lparr>attrs := (attrs (h a))(name \<mapsto> v)\<rparr>)"

text \<open>
  \<^verbatim>\<open>super(AdvASRBrain, x).__setattr__(name, value)\<close>: \<^verbatim>\<open>super\<close> raises
  \<^verbatim>\<open>TypeError\<close> unless \<^verbatim>\<open>x\<close> is an instance of \<^verbatim>\<open>AdvASRBrain\<close>; no class above
  \<^verbatim>\<open>AdvASRBrain\<close> overrides \<^verbatim>\<open>__setattr__\<close>, so \<^verbatim>\<open>object\<close>'s runs.
\<close>

definition super_setattr :: "'v store \<Rightarrow> 'v pyval \<Rightarrow> string \<Rightarrow> 'v pyval \<Rightarrow> pyerror + 'v store" where
  "super_setattr h x name v =
     (case x of
        Ref a \<Rightarrow>
          if is_adv_asr_brain (h a) then Inr (object_setattr h a name v)
          else Inl (TypeError ''super(type, obj): obj must be an instance or subtype of type'')
      | NoneVal \<Rightarrow> Inl (TypeError ''super(type, obj): obj must be an instance or subtype of type'')
      | Val u \<Rightarrow> Inl (TypeError ''super(type, obj): obj must be an instance or subtype of type''))"

text \<open>
  \<^verbatim>\<open>AdvASRBrain.__setattr__(self, name, value, attacker_brain=True)\<close>; an assignment
  \<^verbatim>\<open>brain.name = value\<close> calls it with \<^verbatim>\<open>attacker_brain\<close> at its default.
\<close>

definition setattr ::
  "'v store \<Rightarrow> addr \<Rightarrow> string \<Rightarrow> 'v pyval \<Rightarrow> bool \<Rightarrow> pyerror + 'v store" where
  "setattr h self name v attacker_brain =
     (case (if hasattr h self ''attacker'' \<and> name \<noteq> ''attacker'' \<and> attacker_brain
            then (case getattr h (Ref self) ''attacker'' of
                    Inl e \<Rightarrow> Inl e
                  | Inr att \<Rightarrow>
                      (case getattr h att ''asr_brain'' of
                         Inl e \<Rightarrow> Inl e
                       | Inr brain \<Rightarrow> super_setattr h brain name v))
            else Inr h) of
        Inl e \<Rightarrow> Inl e
      | Inr h1 \<Rightarrow> super_setattr h1 (Ref self) name v)"

definition assign_attribute :: "'v store \<Rightarrow> addr \<Rightarrow> string \<Rightarrow> 'v pyval \<Rightarrow> pyerror + 'v store" where
  "assign_attribute h self name v = setattr h self name v True"

text \<open>
  \<^verbatim>\<open>compute_forward_adversarial\<close>. The local \<^verbatim>\<open>wavs\<close> is the tensor object found
  in \<^verbatim>\<open>batch.sig[0]\<close>, not a copy of it (the source does not clone it): the last
  assignment puts that object back, with whatever the attacker and
  \<^verbatim>\<open>compute_forward\<close> have left in it. The local \<^verbatim>\<open>adv_wavs\<close> is bound only in
  the branch that calls the attacker; \<^verbatim>\<open>del adv_wavs\<close> raises
  \<^verbatim>\<open>UnboundLocalError\<close> when it is not bound.
\<close>

definition compute_forward_adversarial ::
  "(('t, 'z) batch_scheme, 't, 'p, 'w) adv_asr_brain \<Rightarrow> stage \<Rightarrow>
   ('p, (('t, 'z) batch_scheme, 't, 'p, 'w) run_state) prog" where
  "compute_forward_adversarial B stage =
     (if stage = ATTACK then raise AssertionError
      else
        bnd get_batch (\<lambda>b0.
        let wavs = fst (sig b0) in
        bnd (case attacker B of
               Unset \<Rightarrow> raise (AttributeError ''attacker'')
             | IsNone \<Rightarrow> ret None
             | Attacker perturb \<Rightarrow>
                 bnd (call (\<lambda>adv b. Perturb b adv) perturb) (\<lambda>adv_wavs.
                 bnd (modify_batch (\<lambda>b. b\<lparr>sig := (adv_wavs, snd (sig b))\<rparr>)) (\<lambda>_.
                 ret (Some adv_wavs)))) (\<lambda>adv_wavs.
        bnd (call (\<lambda>res b. ComputeForward b stage res) (compute_forward B stage)) (\<lambda>res.
        bnd (modify_batch (\<lambda>b. b\<lparr>sig := (wavs, snd (sig b))\<rparr>)) (\<lambda>_.
        (case adv_wavs of
           None \<Rightarrow> raise (UnboundLocalError ''adv_wavs'')
         | Some _ \<Rightarrow> ret res))))))"

text \<open>
  \<^verbatim>\<open>with torch.cuda.amp.autocast():\<close> the context is left when the body ends,
  also by an exception.
\<close>

definition with_autocast ::
  "('b, 't, 'p, 'w) adv_asr_brain \<Rightarrow> ('a, ('b, 't, 'p, 'w) run_state) prog \<Rightarrow>
   ('a, ('b, 't, 'p, 'w) run_state) prog" where
  "with_autocast B body s =
     (case act B AutocastEnter s of
        (Inl e, s1) \<Rightarrow> (Inl e, s1)
      | (Inr _, s1) \<Rightarrow>
          (case body s1 of
             (r, s2) \<Rightarrow>
               (case act B AutocastExit s2 of
                  (Inl e, s3) \<Rightarrow> (Inl e, s3)
                | (Inr _, s3) \<Rightarrow> (r, s3))))"

definition fit_batch_adversarial ::
  "(('t, 'z) batch_scheme, 't, 'p, 'w) adv_asr_brain \<Rightarrow>
   ('t, (('t, 'z) batch_scheme, 't, 'p, 'w) run_state) prog" where
  "fit_batch_adversarial B =
     (if auto_mix_prec B then
        bnd (act B ZeroGrad) (\<lambda>_.
        bnd (with_autocast B
               (bnd (compute_forward_adversarial B TRAIN) (\<lambda>outputs.
                call (\<lambda>loss b. ComputeObjectives outputs b TRAIN False loss)
                  (compute_objectives B outputs TRAIN False)))) (\<lambda>loss.
        bnd (act B (ScaleBackward loss)) (\<lambda>_.
        bnd (act B Unscale) (\<lambda>_.
        bnd (call (\<lambda>ok _. CheckGradients loss ok) (check_gradients B loss)) (\<lambda>ok.
        bnd (if ok then act B ScalerStep else ret ()) (\<lambda>_.
        bnd (act B ScalerUpdate) (\<lambda>_.
        ret (detach_cpu B loss))))))))
      else
        bnd (compute_forward_adversarial B TRAIN) (\<lambda>outputs.
        bnd (call (\<lambda>loss b. ComputeObjectives outputs b TRAIN False loss)
               (compute_objectives B outputs TRAIN False)) (\<lambda>loss.
        bnd (act B (Backward loss)) (\<lambda>_.
        bnd (call (\<lambda>ok _. CheckGradients loss ok) (check_gradients B loss)) (\<lambda>ok.
        bnd (if ok then act B OptimizerStep else ret ()) (\<lambda>_.
        bnd (act B ZeroGrad) (\<lambda>_.
        ret (detach_cpu B loss))))))))"

definition evaluate_batch_adversarial ::
  "(('t, 'z) batch_scheme, 't, 'p, 'w) adv_asr_brain \<Rightarrow> stage \<Rightarrow>
   ('t, (('t, 'z) batch_scheme, 't, 'p, 'w) run_state) prog" where
  "evaluate_batch_adversarial B stage =
     bnd (compute_forward_adversarial B stage) (\<lambda>out.
     bnd (call (\<lambda>loss b. ComputeObjectives out b stage True loss)
            (compute_objectives B out stage True)) (\<lambda>loss.
     ret (detach_cpu B loss)))"

text \<open>
  One round of the validation loop of \<^verbatim>\<open>fit\<close> and of the loop of \<^verbatim>\<open>evaluate\<close>,
  which differ in the stage only: the loop variable is bound to the next batch, the
  step is counted, the batch is evaluated clean and then adversarially, and each loss
  goes into its own running average.
\<close>

definition eval_loop_body ::
  "(('t, 'z) batch_scheme, 't, 'p, 'w) adv_asr_brain \<Rightarrow> stage \<Rightarrow> ('t, 'z) batch_scheme \<Rightarrow>
   rat \<times> rat \<Rightarrow> (rat \<times> rat, (('t, 'z) batch_scheme, 't, 'p, 'w) run_state) prog" where
  "eval_loop_body B stage b acc =
     (case acc of (avg_loss, avg_adv_loss) \<Rightarrow>
        bnd (modify_batch (\<lambda>_. b)) (\<lambda>_.
        bnd get_step (\<lambda>n.
        bnd (set_step (n + 1)) (\<lambda>_.
        bnd (call (\<lambda>loss bb. EvaluateBatch bb stage loss) (evaluate_batch B stage)) (\<lambda>loss.
        bnd get_step (\<lambda>n1.
        bnd (evaluate_batch_adversarial B stage) (\<lambda>adv_loss.
        bnd get_step (\<lambda>n2.
        ret (update_average B loss avg_loss n1,
             update_average B adv_loss avg_adv_loss n2)))))))))"

text \<open>The loop, with its \<^verbatim>\<open>break\<close> in debug mode.\<close>

fun eval_loop ::
  "(('t, 'z) batch_scheme, 't, 'p, 'w) adv_asr_brain \<Rightarrow> stage \<Rightarrow> ('t, 'z) batch_scheme list \<Rightarrow>
   rat \<times> rat \<Rightarrow> (rat \<times> rat, (('t, 'z) batch_scheme, 't, 'p, 'w) run_state) prog" where
  "eval_loop B stage [] acc = ret acc"
| "eval_loop B stage (b # rest) acc =
     bnd (eval_loop_body B stage b acc) (\<lambda>acc'.
     bnd get_step (\<lambda>n.
     if debug B \<and> n = debug_batches B then ret acc' else eval_loop B stage rest acc'))"

text \<open>
  The validation stage of one epoch of \<^verbatim>\<open>fit\<close> (the block under
  \<^verbatim>\<open>if valid_set is not None\<close>), and \<^verbatim>\<open>evaluate\<close>, both on the main process, where
  \<^verbatim>\<open>run_on_main\<close> calls its function. The data loader is the list of the batches it
  yields.
\<close>

definition fit_validation ::
  "(('t, 'z) batch_scheme, 't, 'p, 'w) adv_asr_brain \<Rightarrow> int \<Rightarrow>
   ('t, 'z) batch_scheme list option \<Rightarrow>
   (unit, (('t, 'z) batch_scheme, 't, 'p, 'w) run_state) prog" where
  "fit_validation B epoch valid_set =
     (case valid_set of
        None \<Rightarrow> ret ()
      | Some batches \<Rightarrow>
          bnd (act B (OnStageStart VALID (Some epoch))) (\<lambda>_.
          bnd (act B ModulesEval) (\<lambda>_.
          bnd (eval_loop B VALID batches (0, 0)) (\<lambda>(avg_valid_loss, avg_valid_adv_loss).
          bnd (set_step 0) (\<lambda>_.
          act B (OnStageEnd VALID avg_valid_loss (Some epoch) (Some avg_valid_adv_loss)))))))"

definition evaluate ::
  "(('t, 'z) batch_scheme, 't, 'p, 'w) adv_asr_brain \<Rightarrow> ('t, 'z) batch_scheme list \<Rightarrow>
   string option \<Rightarrow> string option \<Rightarrow>
   (rat, (('t, 'z) batch_scheme, 't, 'p, 'w) run_state) prog" where
  "evaluate B test_set max_key min_key =
     bnd (act B (OnEvaluateStart max_key min_key)) (\<lambda>_.
     bnd (act B (OnStageStart TEST None)) (\<lambda>_.
     bnd (act B ModulesEval) (\<lambda>_.
     bnd (eval_loop B TEST test_set (0, 0)) (\<lambda>(avg_test_loss, avg_test_adv_loss).
     bnd (act B (OnStageEnd TEST avg_test_loss None (Some avg_test_adv_loss))) (\<lambda>_.
     bnd (set_step 0) (\<lambda>_.
     ret avg_test_loss))))))"

subsection \<open>PredictionEnsemble and EnsembleASRBrain\<close>

text \<open>
  What a brain predicts for a batch is a tuple; \<^verbatim>\<open>predictions\<close> handed to an
  ensemble is either such a tuple or a \<^verbatim>\<open>PredictionEnsemble\<close> of them. The class
  \<^verbatim>\<open>PredictionEnsemble\<close> defines \<^verbatim>\<open>__init__\<close>, \<^verbatim>\<open>__len__\<close> and an
  \<^verbatim>\<open>__iter__(self, i)\<close>, and no \<^verbatim>\<open>__getitem__\<close>: \<^verbatim>\<open>len\<close> is the number of
  predictions, and a subscript \<^verbatim>\<open>predictions[i]\<close> raises \<^verbatim>\<open>TypeError\<close>.
\<close>

datatype 'c predictions = PredictionEnsemble "'c list list" | Plain "'c list"

fun is_ensemble :: "'c predictions \<Rightarrow> bool" where
  "is_ensemble (PredictionEnsemble ps) = True"
| "is_ensemble (Plain p) = False"

fun py_len :: "'c predictions \<Rightarrow> nat" where
  "py_len (PredictionEnsemble ps) = length ps"
| "py_len (Plain p) = length p"

definition ensemble_getitem :: "'c list list \<Rightarrow> nat \<Rightarrow> pyerror + 'c list" where
  "ensemble_getitem ps i = Inl (TypeError ''PredictionEnsemble object is not subscriptable'')"

text \<open>
  \<^verbatim>\<open>torch.stack(losses, dim=0)\<close> and \<^verbatim>\<open>torch.mean(t, dim=0)\<close> belong to the tensor
  library.
\<close>

record 't torch =
  torch_stack :: "'t list \<Rightarrow> pyerror + 't"
  torch_mean :: "'t \<Rightarrow> pyerror + 't"

text \<open>
  \<^verbatim>\<open>EnsembleASRBrain\<close>; the attribute \<^verbatim>\<open>ref_tokens\<close> of the source is
  \<open>ref_tokens_model\<close> here. \<^verbatim>\<open>__init__\<close> sets \<^verbatim>\<open>nmodels\<close> to the number of
  brains.
\<close>

record ('b, 't, 'c, 'w) ensemble_asr_brain =
  nmodels :: nat
  asr_brains :: "('b, 't, 'c list, 'w) asr_brain list"
  ref_tokens_model :: int

definition EnsembleASRBrain ::
  "('b, 't, 'c list, 'w) asr_brain list \<Rightarrow> int \<Rightarrow> ('b, 't, 'c, 'w) ensemble_asr_brain" where
  "EnsembleASRBrain brains ref =
     \<lparr>nmodels = length brains, asr_brains = brains, ref_tokens_model = ref\<rparr>"

fun ensemble_forward_loop ::
  "('b, 't, 'c list, 'w) asr_brain list \<Rightarrow> stage \<Rightarrow> 'c list list \<Rightarrow>
   ('c list list, ('b, 't, 'c list, 'w) run_state) prog" where
  "ensemble_forward_loop [] stage preds = ret preds"
| "ensemble_forward_loop (ab # rest) stage preds =
     bnd (call (\<lambda>res b. ComputeForward b stage res) (compute_forward ab stage)) (\<lambda>pred.
     ensemble_forward_loop rest stage (preds @ [pred]))"

definition ensemble_compute_forward ::
  "('b, 't, 'c, 'w) ensemble_asr_brain \<Rightarrow> stage \<Rightarrow> int option \<Rightarrow>
   ('c predictions, ('b, 't, 'c list, 'w) run_state) prog" where
  "ensemble_compute_forward E stage model_idx =
     (case model_idx of
        Some m \<Rightarrow>
          bnd (lift (py_index (asr_brains E) m)) (\<lambda>ab.
          bnd (call (\<lambda>res b. ComputeForward b stage res) (compute_forward ab stage)) (\<lambda>pred.
          ret (Plain pred)))
      | None \<Rightarrow>
          bnd (ensemble_forward_loop (asr_brains E) stage []) (\<lambda>preds.
          ret (PredictionEnsemble preds)))"

text \<open>
  The loop of \<^verbatim>\<open>compute_objectives\<close> over \<^verbatim>\<open>range(self.nmodels)\<close>; the state is
  the list \<^verbatim>\<open>losses\<close> and the local \<^verbatim>\<open>loss\<close>, unbound before the first round.
\<close>

fun ensemble_objectives_loop ::
  "('b, 't, 'c, 'w) ensemble_asr_brain \<Rightarrow> 'c predictions \<Rightarrow> stage \<Rightarrow> int option \<Rightarrow>
   nat list \<Rightarrow> 't list \<times> 't option \<Rightarrow>
   ('t list \<times> 't option, ('b, 't, 'c list, 'w) run_state) prog" where
  "ensemble_objectives_loop E predictions stage model_idx [] acc = ret acc"
| "ensemble_objectives_loop E predictions stage model_idx (i # rest) (losses, loss) =
     bnd (lift (py_index (asr_brains E) (case model_idx of None \<Rightarrow> int i | Some m \<Rightarrow> m)))
       (\<lambda>ab.
     bnd (lift (case predictions of
                  PredictionEnsemble ps \<Rightarrow> ensemble_getitem ps i
                | Plain p \<Rightarrow> Inr p)) (\<lambda>pred.
     bnd (call (\<lambda>l b. ComputeObjectives pred b stage False l)
            (compute_objectives ab pred stage False)) (\<lambda>l.
     ensemble_objectives_loop E predictions stage model_idx rest (losses @ [l], Some l))))"

text \<open>
  \<^verbatim>\<open>compute_objectives(predictions, batch, stage, average=True, model_idx=None)\<close>.
  The branch for many predictions is taken when \<^verbatim>\<open>predictions\<close> is a
  \<^verbatim>\<open>PredictionEnsemble\<close> or \<^verbatim>\<open>model_idx\<close> is \<^verbatim>\<open>None\<close>, the last line otherwise,
  that is for a plain prediction with a model index. With \<^verbatim>\<open>average\<close> the source
  returns \<^verbatim>\<open>torch.mean(loss, dim=0)\<close>, of the local \<^verbatim>\<open>loss\<close>, not of the
  stacked \<^verbatim>\<open>losses\<close>.
\<close>

definition ensemble_compute_objectives ::
  "'t torch \<Rightarrow> ('b, 't, 'c, 'w) ensemble_asr_brain \<Rightarrow> 'c predictions \<Rightarrow> stage \<Rightarrow> bool \<Rightarrow>
   int option \<Rightarrow> ('t, ('b, 't, 'c list, 'w) run_state) prog" where
  "ensemble_compute_objectives T E predictions stage average model_idx =
     (case (predictions, model_idx) of
        (Plain p, Some m) \<Rightarrow>
          bnd (lift (py_index (asr_brains E) m)) (\<lambda>ab.
          call (\<lambda>l b. ComputeObjectives p b stage False l)
            (compute_objectives ab p stage False))
      | _ \<Rightarrow>
          (if py_len predictions \<noteq> nmodels E then raise AssertionError
           else
             bnd (ensemble_objectives_loop E predictions stage model_idx [0..<nmodels E]
                    ([], None)) (\<lambda>(losses, loss).
             bnd (lift (torch_stack T losses)) (\<lambda>stacked.
             if average then
               (case loss of
                  None \<Rightarrow> raise (UnboundLocalError ''loss'')
                | Some l \<Rightarrow> lift (torch_mean T l))
             else ret stacked))))"

section \<open>What the theorems speak of\<close>

text \<open>
  The three lists of fields of an alignment block are padded for an utterance when
  each has one field per entry of the alignment and, in every column, the three fields
  are the reference token (or the empty symbol when its index is \<^verbatim>\<open>None\<close>), the
  edit symbol and the hypothesis token (or the empty symbol), each centred to the
  length of the longest of the three, so that all three have that length.
\<close>

definition padded_fields ::
  "string \<Rightarrow> utterance \<Rightarrow> string list \<times> string list \<times> string list \<Rightarrow> bool" where
  "padded_fields empty_symbol d cols =
     (case cols of (ref_fields, op_fields, hyp_fields) \<Rightarrow>
        length ref_fields = length (alignment d) \<and>
        length op_fields = length (alignment d) \<and>
        length hyp_fields = length (alignment d) \<and>
        (\<forall>k < length (alignment d).
           case alignment d ! k of (op_string, i, j) \<Rightarrow>
             (\<exists>a_string b_string.
                (case i of None \<Rightarrow> a_string = empty_symbol
                 | Some i' \<Rightarrow> py_index (ref_tokens d) i' = Inr a_string) \<and>
                (case j of None \<Rightarrow> b_string = empty_symbol
                 | Some j' \<Rightarrow> py_index (hyp_tokens d) j' = Inr b_string) \<and>
                ref_fields ! k =
                  center a_string (max (length op_string) (max (length a_string) (length b_string))) \<and>
                op_fields ! k =
                  center op_string (max (length op_string) (max (length a_string) (length b_string))) \<and>
                hyp_fields ! k =
                  center b_string (max (length op_string) (max (length a_string) (length b_string))) \<and>
                length (ref_fields ! k) =
                  max (length op_string) (max (length a_string) (length b_string)) \<and>
                length (op_fields ! k) =
                  max (length op_string) (max (length a_string) (length b_string)) \<and>
                length (hyp_fields ! k) =
                  max (length op_string) (max (length a_string) (length b_string)))))"

text \<open>
  A batch is evaluated twice when the calls made for it are \<^verbatim>\<open>evaluate_batch\<close> on
  the batch as the loader gave it, then the attacker, \<^verbatim>\<open>compute_forward\<close> on a
  batch whose waveform is the attacker's and \<^verbatim>\<open>compute_objectives\<close> with
  \<^verbatim>\<open>adv=True\<close> on its output. A row holds the clean loss, the adversarial loss and
  these calls.
\<close>

definition evaluated_twice ::
  "(('t, 'z) batch_scheme, 't, 'p, 'w) adv_asr_brain \<Rightarrow> stage \<Rightarrow> ('t, 'z) batch_scheme \<Rightarrow>
   't \<times> 't \<times> (('t, 'z) batch_scheme, 't, 'p) event list \<Rightarrow> bool" where
  "evaluated_twice B stage b row =
     (case row of (loss, adv_loss, seg) \<Rightarrow>
        (\<exists>b1 adv b2 out b3 raw.
           seg = [EvaluateBatch b stage loss, Perturb b1 adv, ComputeForward b2 stage out,
                  ComputeObjectives out b3 stage True raw] \<and>
           fst (sig b2) = adv \<and> adv_loss = detach_cpu B raw))"

text \<open>
  The two running averages after the rows, from the averages \<open>acc\<close> and the step
  \<open>n\<close>: \<^verbatim>\<open>update_average\<close> on the clean losses for the first, on the adversarial
  losses for the second, the step counted up before each row.
\<close>

fun running_averages ::
  "('b, 't, 'p, 'w) adv_asr_brain \<Rightarrow> rat \<times> rat \<Rightarrow> int \<Rightarrow> ('t \<times> 't \<times> 'e) list \<Rightarrow> rat \<times> rat" where
  "running_averages B acc n [] = acc"
| "running_averages B acc n ((loss, adv_loss, seg) # rows) =
     running_averages B
       (update_average B loss (fst acc) (n + 1), update_average B adv_loss (snd acc) (n + 1))
       (n + 1) rows"

text \<open>
  The batches a loop gets to when it starts at step \<open>n\<close>: in debug mode those up to
  the one at which the step reaches \<^verbatim>\<open>debug_batches\<close>, otherwise all.
\<close>

definition processed_batches :: "('b, 't, 'p, 'w) adv_asr_brain \<Rightarrow> int \<Rightarrow> 'x list \<Rightarrow> 'x list" where
  "processed_batches B n batches =
     (if debug B \<and> n < debug_batches B \<and> debug_batches B - n \<le> int (length batches)
      then take (nat (debug_batches B - n)) batches
      else batches)"

text \<open>
  A collaborator keeps a tensor when no call of it changes what the tensor holds.
\<close>

definition keeps_tensor :: "'t \<Rightarrow> ('a, 'b, ('t, 'v, 'y) tensor_world_scheme) ext \<Rightarrow> bool" where
  "keeps_tensor t f = (\<forall>b w. tensor_data (snd (snd (f (b, w)))) t = tensor_data w t)"

text \<open>
  A collaborator is total when it returns a value on every batch and world; a
  statement sequence always returns when it ends without an exception from every
  state.
\<close>

definition total_ext :: "('a, 'b, 'w) ext \<Rightarrow> bool" where
  "total_ext f = (\<forall>x. \<exists>r b w. f x = (Inr r, b, w))"

definition always_returns :: "('a, 's) prog \<Rightarrow> bool" where
  "always_returns m = (\<forall>s. \<exists>x s'. m s = (Inr x, s'))"

section \<open>Sample data\<close>

text \<open>Concrete inputs on which the theorems below are instantiated.\<close>

definition sample_floats :: pyfloat where
  "sample_floats =
     \<lparr>fmt_2f = (\<lambda>v. if num_val v = 0 then ''0.00'' else ''50.00''),
      str_float = (\<lambda>x. if x = 0 then ''0.0'' else ''100.0''),
      float_mul = (\<lambda>x y. x * y)\<rparr>"

definition sample_wer :: "string \<Rightarrow> string \<Rightarrow> pyerror + rat" where
  "sample_wer reference hypothesis = Inr (if reference = hypothesis then 0 else 1)"

definition sample_utterance ::
  "string \<Rightarrow> bool \<Rightarrow> (string \<times> int option \<times> int option) list \<Rightarrow> string list \<Rightarrow>
   string list \<Rightarrow> utterance" where
  "sample_utterance k sc al refs hyps =
     \<lparr>key = k, scored = sc, WER = PyFloat 50, num_edits = PyInt 1, num_ref_tokens = PyInt 2,
      insertions = PyInt 0, deletions = PyInt 0, substitutions = PyInt 1,
      alignment = al, ref_tokens = refs, hyp_tokens = hyps\<rparr>"

text \<open>
  The alignment that \<^verbatim>\<open>_print_alignments_global_header\<close> of the source prints as
  its illustration, with the edit symbols \<^verbatim>\<open>I\<close>, \<^verbatim>\<open>S\<close>, \<^verbatim>\<open>=\<close>, \<^verbatim>\<open>D\<close>.
\<close>

definition sample_reference :: "string list" where
  "sample_reference = [''reference'', ''on'', ''the'', ''first'', ''line'']"

definition sample_hypothesis :: "string list" where
  "sample_hypothesis = [''and'', ''hypothesis'', ''on'', ''the'', ''third'']"

definition sample_alignment :: "(string \<times> int option \<times> int option) list" where
  "sample_alignment =
     [(''I'', None, Some 0), (''S'', Some 0, Some 1), (''='', Some 1, Some 2),
      (''='', Some 2, Some 3), (''S'', Some 3, Some 4), (''D'', Some 4, None)]"

definition sample_details :: "utterance list" where
  "sample_details =
     [sample_utterance ''utt1'' True sample_alignment sample_reference sample_hypothesis,
      sample_utterance ''utt1'' True sample_alignment sample_reference sample_hypothesis,
      sample_utterance ''utt2'' False [] [''a''] []]"

text \<open>
  A brain whose tensors are never changed in place, so that a tensor is named by the
  integer it holds, and whose world counts the calls made: the attacker returns a new
  waveform, the old one plus 1, the forward pass doubles the waveform, the loss is the
  output plus 1, the gradient check passes below 100.
\<close>

definition sample_brain :: "(int batch, int, int, nat) adv_asr_brain" where
  "sample_brain =
     \<lparr>compute_forward = (\<lambda>stage (b, w). (Inr (fst (sig b) * 2), b, Suc w)),
      compute_objectives = (\<lambda>p stage adv (b, w). (Inr (p + 1), b, Suc w)),
      attacker = Attacker (\<lambda>(b, w). (Inr (fst (sig b) + 1), b, Suc w)),
      auto_mix_prec = False,
      check_gradients = (\<lambda>loss (b, w). (Inr (loss < 100), b, Suc w)),
      evaluate_batch = (\<lambda>stage (b, w). (Inr (fst (sig b) * 2 + 1), b, Suc w)),
      update_average = (\<lambda>loss avg n. avg - avg / of_int n + of_int loss / of_int n),
      detach_cpu = (\<lambda>loss. loss),
      effect = (\<lambda>e (b, w). (Inr (), b, Suc w)),
      debug = True,
      debug_batches = 2\<rparr>"

definition sample_state :: "(int batch, int, int, nat) run_state" where
  "sample_state = \<lparr>cur_batch = \<lparr>sig = (10, 1)\<rparr>, step = 0, world = 0, calls = []\<rparr>"

definition sample_batches :: "int batch list" where
  "sample_batches = [\<lparr>sig = (10, 1)\<rparr>, \<lparr>sig = (20, 1)\<rparr>, \<lparr>sig = (30, 1)\<rparr>]"

text \<open>
  A store with a brain at address 0, its attacker at 1 and the attacked brain at 2.
\<close>

definition sample_store :: "int store" where
  "sample_store =
     (\<lambda>_. \<lparr>is_adv_asr_brain = False, attrs = Map.empty\<rparr>)
       (0 := \<lparr>is_adv_asr_brain = True, attrs = [''attacker'' \<mapsto> Ref 1, ''step'' \<mapsto> Val 0]\<rparr>,
        1 := \<lparr>is_adv_asr_brain = False, attrs = [''asr_brain'' \<mapsto> Ref 2]\<rparr>,
        2 := \<lparr>is_adv_asr_brain = True, attrs = [''step'' \<mapsto> Val 0]\<rparr>)"

text \<open>
  An ensemble of two models on toy tensors: a scalar loss is a list of one rational,
  stacking scalars lists them, the mean over the first axis averages the list.
\<close>

definition sample_model :: "int \<Rightarrow> (int batch, rat list, int list, nat) asr_brain" where
  "sample_model k =
     \<lparr>compute_forward = (\<lambda>stage (b, w). (Inr [fst (sig b) * k], b, Suc w)),
      compute_objectives = (\<lambda>p stage adv (b, w). (Inr [of_int (sum_list p + k)], b, Suc w))\<rparr>"

definition sample_torch :: "rat list torch" where
  "sample_torch =
     \<lparr>torch_stack = (\<lambda>ts. if ts = [] then Inl (RuntimeError ''stack expects a non-empty TensorList'')
                          else Inr (concat ts)),
      torch_mean = (\<lambda>t. Inr [sum_list t / of_nat (length t)])\<rparr>"

definition sample_ensemble :: "(int batch, rat list, int, nat) ensemble_asr_brain" where
  "sample_ensemble = EnsembleASRBrain [sample_model 1, sample_model 3] 0"

definition sample_ensemble_state :: "(int batch, rat list, int list, nat) run_state" where
  "sample_ensemble_state = \<lparr>cur_batch = \<lparr>sig = (10, 1)\<rparr>, step = 0, world = 0, calls = []\<rparr>"

text \<open>
  A brain on tensors that live in the world: a tensor is an address, the world says
  which integer each holds. The batch has its waveform at address 0, holding 10, and
  its lengths at address 1. The attacker adds 1 to the waveform: in place, returning
  the tensor it was given, or into a new tensor at address 2. The forward pass doubles
  what the waveform of the batch holds; the loss is a new tensor at address 3.
\<close>

definition sample_tensor_brain ::
  "bool \<Rightarrow> (nat batch, nat, int, (nat, int) tensor_world) adv_asr_brain" where
  "sample_tensor_brain in_place =
     \<lparr>compute_forward = (\<lambda>stage (b, w). (Inr (tensor_data w (fst (sig b)) * 2), b, w)),
      compute_objectives =
        (\<lambda>p stage adv (b, w). (Inr 3, b, w\<lparr>tensor_data := (tensor_data w)(3 := p + 1)\<rparr>)),
      attacker = Attacker
        (\<lambda>(b, w).
           if in_place
           then (Inr (fst (sig b)), b,
                 w\<lparr>tensor_data :=
                     (tensor_data w)(fst (sig b) := tensor_data w (fst (sig b)) + 1)\<rparr>)
           else (Inr 2, b,
                 w\<lparr>tensor_data := (tensor_data w)(2 := tensor_data w (fst (sig b)) + 1)\<rparr>)),
      auto_mix_prec = False,
      check_gradients = (\<lambda>loss (b, w). (Inr (tensor_data w loss < 100), b, w)),
      evaluate_batch =
        (\<lambda>stage (b, w).
           (Inr 4, b, w\<lparr>tensor_data := (tensor_data w)(4 := tensor_data w (fst (sig b)) * 2 + 1)\<rparr>)),
      update_average = (\<lambda>loss avg n. avg),
      detach_cpu = (\<lambda>loss. loss),
      effect = (\<lambda>e (b, w). (Inr (), b, w)),
      debug = False,
      debug_batches = 0\<rparr>"

definition sample_tensor_state :: "(nat batch, nat, int, (nat, int) tensor_world) run_state" where
  "sample_tensor_state =
     \<lparr>cur_batch = \<lparr>sig = (0, 1)\<rparr>, step = 0,
      world = \<lparr>tensor_data = (\<lambda>_. 0)(0 := 10, 1 := 1)\<rparr>, calls = []\<rparr>"

section \<open>Properties of the text-file layer\<close>

definition at_end :: "textfile \<Rightarrow> bool" where
  "at_end f = (pos f = length (content f))"

lemma file_write_at_end:
  "at_end f \<Longrightarrow>
   file_write s f = f\<lparr>content := content f @ s, pos := length (content f) + length s\<rparr>"
  by (simp add: at_end_def file_write_def)

lemma at_end_file_write: "at_end f \<Longrightarrow> at_end (file_write s f)"
  by (simp add: at_end_def file_write_def)

lemma py_print_at_end:
  "at_end f \<Longrightarrow>
   py_print s e f =
     f\<lparr>content := content f @ s @ e, pos := length (content f) + length s + length e\<rparr>"
  by (simp add: py_print_def file_write_at_end at_end_file_write)
     (simp add: at_end_def file_write_def)

lemma at_end_py_print: "at_end f \<Longrightarrow> at_end (py_print s e f)"
  by (simp add: py_print_def at_end_file_write)

lemma content_py_print: "at_end f \<Longrightarrow> content (py_print s e f) = content f @ s @ e"
  by (simp add: py_print_at_end)

lemma at_end_file_seek_end: "at_end (file_seek_end f)"
  by (simp add: at_end_def file_seek_end_def)

lemma file_write_file_write: "file_write b (file_write a f) = file_write (a @ b) f"
  by (cases "pos f \<le> length (content f)")
     (simp_all add: file_write_def min_def add.commute add.left_commute add.assoc)

lemma py_print_write: "py_print s e f = file_write (s @ e) f"
  by (simp add: py_print_def file_write_file_write)

section \<open>Laws of statement sequencing\<close>

lemma bnd_ret: "bnd (ret x) k = k x"
  by (rule ext) (simp add: bnd_def ret_def)

lemma bnd_raise: "bnd (raise e) k = raise e"
  by (rule ext) (simp add: bnd_def raise_def)

lemma bnd_lift_Inr: "bnd (lift (Inr x)) k = k x"
  by (rule ext) (simp add: bnd_def lift_def)

lemma bnd_lift_Inl: "bnd (lift (Inl e)) k = raise e"
  by (rule ext) (simp add: bnd_def lift_def raise_def)

lemma bnd_print_to: "bnd (print_to s e) k f = k () (file_write (s @ e) f)"
  by (simp add: bnd_def print_to_def py_print_write)

text \<open>The definitions that run a statement sequence on a concrete state.\<close>

lemmas run_defs = bnd_def call_def act_def get_batch_def modify_batch_def get_step_def
  set_step_def ret_def raise_def Let_def

section \<open>print\_snr\_csv writes the header once and one row per entry\<close>

lemma print_snr_rows_content:
  "at_end f \<Longrightarrow>
   content (print_snr_rows str_score md f) =
     content f @
     concat (map (\<lambda>(score, ident, iter_idx).
                    ident @ '','' @ str_int iter_idx @ '','' @ str_score score @ [nl]) md)"
proof (induction md arbitrary: f)
  case Nil
  show ?case by simp
next
  case (Cons e md)
  obtain score ident iter_idx where e: "e = (score, ident, iter_idx)"
    by (cases e) auto
  let ?g = "py_print (ident @ '','' @ str_int iter_idx @ '','' @ str_score score) [nl] f"
  have "at_end ?g" using Cons.prems by (rule at_end_py_print)
  from Cons.IH [OF this] show ?case
    using Cons.prems by (simp add: e content_py_print)
qed

text \<open>
  C8. \<^verbatim>\<open>print_snr_csv\<close> writes the header line \<^verbatim>\<open>id,iter,snr\<close> if and only if the
  file is empty when it is called, and then appends, in input order, one line per entry
  of \<^verbatim>\<open>metrics_detail\<close> holding the id, the iteration index and the score,
  wherever the file position stood before the call.
\<close>

theorem print_snr_csv_appends:
  "content (print_snr_csv str_score metrics_detail file) =
     content file
     @ (if content file = [] then ''id,iter,snr'' @ [nl] else [])
     @ concat (map (\<lambda>(score, ident, iter_idx).
                      ident @ '','' @ str_int iter_idx @ '','' @ str_score score @ [nl])
                 metrics_detail)"
proof -
  let ?f3 = "file_seek_end (snd (file_read (file_seek 0 file)))"
  have c3: "content ?f3 = content file"
    by (simp add: file_seek_end_def file_read_def file_seek_def)
  have e3: "at_end ?f3" by (rule at_end_file_seek_end)
  have empty_iff: "(length (fst (file_read (file_seek 0 file))) = 0) = (content file = [])"
    by (simp add: file_read_def file_seek_def)
  show ?thesis
  proof (cases "content file = []")
    case True
    let ?f4 = "py_print (py_join '','' [''id'', ''iter'', ''snr'']) [nl] ?f3"
    have "at_end ?f4" using e3 by (rule at_end_py_print)
    then have "content (print_snr_rows str_score metrics_detail ?f4) =
        content ?f4 @ concat (map (\<lambda>(score, ident, iter_idx).
            ident @ '','' @ str_int iter_idx @ '','' @ str_score score @ [nl]) metrics_detail)"
      by (rule print_snr_rows_content)
    moreover have "content ?f4 = content file @ ''id,iter,snr'' @ [nl]"
      using e3 c3 by (simp add: content_py_print)
    moreover have "print_snr_csv str_score metrics_detail file =
        print_snr_rows str_score metrics_detail ?f4"
      using True empty_iff by (simp add: print_snr_csv_def Let_def split_beta)
    ultimately show ?thesis using True by simp
  next
    case False
    have "content (print_snr_rows str_score metrics_detail ?f3) =
        content ?f3 @ concat (map (\<lambda>(score, ident, iter_idx).
            ident @ '','' @ str_int iter_idx @ '','' @ str_score score @ [nl]) metrics_detail)"
      using e3 by (rule print_snr_rows_content)
    moreover have "print_snr_csv str_score metrics_detail file =
        print_snr_rows str_score metrics_detail ?f3"
      using False empty_iff by (simp add: print_snr_csv_def Let_def split_beta)
    ultimately show ?thesis using False c3 by simp
  qed
qed

section \<open>print\_wer\_summary: the summary lines\<close>

text \<open>
  C6. For a \<^verbatim>\<open>wer_details\<close> dict that has the keys the templates name,
  \<^verbatim>\<open>print_wer_summary\<close> returns normally and writes, at the file position: the WER
  line with \<^verbatim>\<open>WER\<close>, \<^verbatim>\<open>num_edits\<close> over \<^verbatim>\<open>num_scored_tokens\<close> and the
  insertion, deletion and substitution counts; the marker \<^verbatim>\<open> [PARTIAL]\<close> on that
  line exactly when \<^verbatim>\<open>num_scored_sents < num_ref_sents\<close>; then the SER line with
  \<^verbatim>\<open>SER\<close> and \<^verbatim>\<open>num_erraneous_sents\<close> over \<^verbatim>\<open>num_scored_sents\<close>; then the
  line counting the scored and the absent sentences.
\<close>

theorem print_wer_summary_output:
  assumes "wer_details ''WER'' = Some wer"
      and "wer_details ''num_edits'' = Some edits"
      and "wer_details ''num_scored_tokens'' = Some toks"
      and "wer_details ''insertions'' = Some ins"
      and "wer_details ''deletions'' = Some dels"
      and "wer_details ''substitutions'' = Some subs"
      and "wer_details ''num_scored_sents'' = Some n_scored"
      and "wer_details ''num_ref_sents'' = Some n_refs"
      and "wer_details ''SER'' = Some ser"
      and "wer_details ''num_erraneous_sents'' = Some errs"
      and "wer_details ''num_absent_sents'' = Some absent"
  shows "print_wer_summary P wer_details f =
     (Inr (),
      file_write
        (''%WER '' @ fmt_2f P wer @ '' [ '' @ py_str P edits @ '' / '' @ py_str P toks
           @ '', '' @ py_str P ins @ '' ins, '' @ py_str P dels @ '' del, ''
           @ py_str P subs @ '' sub ]''
           @ (if num_val n_scored < num_val n_refs then '' [PARTIAL]'' else [])
           @ [nl]
         @ ''%SER '' @ fmt_2f P ser @ '' [ '' @ py_str P errs @ '' / '' @ py_str P n_scored
           @ '' ]'' @ [nl]
         @ ''Scored '' @ py_str P n_scored @ '' sentences, '' @ py_str P absent
           @ '' not present in hyp.'' @ [nl])
        f)"
  using assms
  by (simp add: print_wer_summary_def lookup_def bnd_lift_Inr bnd_print_to
      file_write_file_write py_less_def print_to_def py_print_write)

theorem print_wer_summary_output_witness:
  "content (snd (print_wer_summary
     \<lparr>fmt_2f = (\<lambda>v. if v = PyFloat (25 / 2) then ''12.50'' else ''50.00''),
      str_float = (\<lambda>x. ''?''), float_mul = (\<lambda>x y. x * y)\<rparr>
     [''WER'' \<mapsto> PyFloat (25 / 2), ''num_edits'' \<mapsto> PyInt 1,
      ''num_scored_tokens'' \<mapsto> PyInt 8, ''insertions'' \<mapsto> PyInt 0,
      ''deletions'' \<mapsto> PyInt 1, ''substitutions'' \<mapsto> PyInt 0,
      ''num_scored_sents'' \<mapsto> PyInt 2, ''num_ref_sents'' \<mapsto> PyInt 3,
      ''SER'' \<mapsto> PyFloat 50, ''num_erraneous_sents'' \<mapsto> PyInt 1,
      ''num_absent_sents'' \<mapsto> PyInt 1]
     \<lparr>content = [], pos = 0\<rparr>)) =
       ''%WER 12.50 [ 1 / 8, 0 ins, 1 del, 0 sub ] [PARTIAL]'' @ [nl]
       @ ''%SER 50.00 [ 1 / 2 ]'' @ [nl]
       @ ''Scored 2 sentences, 1 not present in hyp.'' @ [nl]"
  using print_wer_summary_output
    [of "[''WER'' \<mapsto> PyFloat (25 / 2), ''num_edits'' \<mapsto> PyInt 1,
      ''num_scored_tokens'' \<mapsto> PyInt 8, ''insertions'' \<mapsto> PyInt 0,
      ''deletions'' \<mapsto> PyInt 1, ''substitutions'' \<mapsto> PyInt 0,
      ''num_scored_sents'' \<mapsto> PyInt 2, ''num_ref_sents'' \<mapsto> PyInt 3,
      ''SER'' \<mapsto> PyFloat 50, ''num_erraneous_sents'' \<mapsto> PyInt 1,
      ''num_absent_sents'' \<mapsto> PyInt 1]"
     "PyFloat (25 / 2)" "PyInt 1" "PyInt 8" "PyInt 0" "PyInt 1" "PyInt 0" "PyInt 2" "PyInt 3"
     "PyFloat 50" "PyInt 1" "PyInt 1"
     "\<lparr>fmt_2f = (\<lambda>v. if v = PyFloat (25 / 2) then ''12.50'' else ''50.00''),
      str_float = (\<lambda>x. ''?''), float_mul = (\<lambda>x y. x * y)\<rparr>"
     "\<lparr>content = [], pos = 0\<rparr>"]
  by (simp add: file_write_def str_int_def digits.simps)

section \<open>print\_log\_csv: the rows need two utterances with the id\<close>

lemma collect_results_filter:
  "collect_results ident dets st = collect_results ident (filter (\<lambda>d. key d = ident) dets) st"
proof (induction dets arbitrary: st)
  case Nil
  show ?case by simp
next
  case (Cons d dets)
  obtain r first where st: "st = (r, first)" by (cases st)
  show ?case
    by (simp add: st Cons.IH Let_def split: sum.splits)
qed

lemma collect_results_later:
  assumes "\<forall>d \<in> set ms. key d = ident" and "target r = Some t" and "prediction r = Some xs"
  shows "collect_results ident ms (r, False) =
           Inr (r\<lparr>prediction := Some (xs @ map (\<lambda>d. py_join '' '' (hyp_tokens d)) ms)\<rparr>, False)"
  using assms
proof (induction ms arbitrary: r xs)
  case Nil
  then show ?case by simp
next
  case (Cons m ms)
  let ?r3 = "r\<lparr>prediction := Some (xs @ [py_join '' '' (hyp_tokens m)])\<rparr>"
  have step: "collect_results ident (m # ms) (r, False) = collect_results ident ms (?r3, False)"
    using Cons.prems by (simp add: prediction_append_def results_get_def)
  have "collect_results ident ms (?r3, False) =
      Inr (?r3\<lparr>prediction := Some ((xs @ [py_join '' '' (hyp_tokens m)])
             @ map (\<lambda>d. py_join '' '' (hyp_tokens d)) ms)\<rparr>, False)"
    using Cons.prems by (intro Cons.IH) simp_all
  then show ?case using step by simp
qed

lemma collect_results_none:
  "filter (\<lambda>d. key d = ident) dets = [] \<Longrightarrow>
   collect_results ident dets (r, first) = Inr (r, first)"
  by (subst collect_results_filter) simp

lemma collect_results_one:
  "filter (\<lambda>d. key d = ident) dets = [m] \<Longrightarrow>
   collect_results ident dets (\<lparr>ground_truth = None, target = None, prediction = None\<rparr>, True) =
     Inr (\<lparr>ground_truth = Some (py_join '' '' (ref_tokens m)), target = None,
           prediction = Some [py_join '' '' (hyp_tokens m)]\<rparr>, False)"
proof -
  assume f: "filter (\<lambda>d. key d = ident) dets = [m]"
  then have "m \<in> set (filter (\<lambda>d. key d = ident) dets)" by simp
  then have k: "key m = ident" by simp
  show ?thesis
    by (subst collect_results_filter) (simp add: f k prediction_append_def results_get_def)
qed

lemma collect_results_many:
  assumes f: "filter (\<lambda>d. key d = ident) dets = m0 # m1 # ms"
  shows "collect_results ident dets (\<lparr>ground_truth = None, target = None, prediction = None\<rparr>, True) =
     Inr (\<lparr>ground_truth = Some (py_join '' '' (ref_tokens m0)),
           target = Some (py_join '' '' (ref_tokens m1)),
           prediction = Some (map (\<lambda>d. py_join '' '' (hyp_tokens d)) (m0 # m1 # ms))\<rparr>, False)"
proof -
  have all: "\<forall>d \<in> set (m0 # m1 # ms). key d = ident"
  proof
    fix d assume "d \<in> set (m0 # m1 # ms)"
    then have "d \<in> set (filter (\<lambda>d. key d = ident) dets)" using f by simp
    then show "key d = ident" by simp
  qed
  let ?r2 = "\<lparr>ground_truth = Some (py_join '' '' (ref_tokens m0)),
           target = Some (py_join '' '' (ref_tokens m1)),
           prediction = Some [py_join '' '' (hyp_tokens m0), py_join '' '' (hyp_tokens m1)]\<rparr>"
  have rest: "collect_results ident ms (?r2, False) =
      Inr (?r2\<lparr>prediction := Some ([py_join '' '' (hyp_tokens m0), py_join '' '' (hyp_tokens m1)]
             @ map (\<lambda>d. py_join '' '' (hyp_tokens d)) ms)\<rparr>, False)"
    using all by (intro collect_results_later) simp_all
  have "collect_results ident (m0 # m1 # ms)
          (\<lparr>ground_truth = None, target = None, prediction = None\<rparr>, True) =
        collect_results ident ms (?r2, False)"
    using all by (simp add: prediction_append_def results_get_def)
  then show ?thesis
    using rest by (subst collect_results_filter) (simp add: f)
qed

lemma print_csv_header_result:
  "print_csv_header h f =
     (Inr (), \<lparr>content = content f @ (if content f = [] then py_join '','' h @ [nl] else []),
               pos = length (content f @ (if content f = [] then py_join '','' h @ [nl] else []))\<rparr>)"
  by (cases f)
     (simp add: print_csv_header_def Let_def file_read_def file_seek_def file_seek_end_def
       print_to_def py_print_write file_write_def)

lemma print_log_rows_target_missing:
  "target r = None \<Longrightarrow> ground_truth r = Some gt \<Longrightarrow>
   print_log_rows P wer ident r it (pre # rest) f = (Inl (KeyError ''target''), f)"
  by (simp add: results_get_def bnd_lift_Inr bnd_lift_Inl raise_def)

lemma print_log_rows_ok_map:
  assumes "ground_truth r = Some gt" and "target r = Some tg"
      and "\<forall>d \<in> set ms. wer gt (py_join '' '' (hyp_tokens d)) = Inr (w1 d)
                          \<and> wer tg (py_join '' '' (hyp_tokens d)) = Inr (w2 d)"
      and "at_end f"
  shows "fst (print_log_rows P wer ident r it (map (\<lambda>d. py_join '' '' (hyp_tokens d)) ms) f)
           = Inr () \<and>
         content (snd (print_log_rows P wer ident r it
                         (map (\<lambda>d. py_join '' '' (hyp_tokens d)) ms) f)) =
           content f @ concat (map (\<lambda>(i, d).
             ident @ '','' @ str_int (int i) @ '','' @ gt @ '','' @ tg
               @ '','' @ py_join '' '' (hyp_tokens d) @ '',''
               @ str_float P (float_mul P (w1 d) 100) @ '',''
               @ str_float P (float_mul P (w2 d) 100) @ [nl]) (List.enumerate it ms))"
  using assms
proof (induction ms arbitrary: it f)
  case Nil
  then show ?case by (simp add: ret_def)
next
  case (Cons d ms)
  let ?row = "ident @ '','' @ str_int (int it) @ '','' @ gt @ '','' @ tg
            @ '','' @ py_join '' '' (hyp_tokens d) @ '',''
            @ str_float P (float_mul P (w1 d) 100) @ '',''
            @ str_float P (float_mul P (w2 d) 100) @ [nl]"
  let ?g = "file_write ?row f"
  have g: "at_end ?g" using Cons.prems(4) by (rule at_end_file_write)
  have cg: "content ?g = content f @ ?row"
    using Cons.prems(4) by (simp add: file_write_at_end)
  have step: "print_log_rows P wer ident r it
        (map (\<lambda>d. py_join '' '' (hyp_tokens d)) (d # ms)) f =
      print_log_rows P wer ident r (Suc it) (map (\<lambda>d. py_join '' '' (hyp_tokens d)) ms) ?g"
    using Cons.prems(1-3)
    by (simp add: results_get_def bnd_lift_Inr bnd_print_to)
  have "\<forall>d \<in> set ms. wer gt (py_join '' '' (hyp_tokens d)) = Inr (w1 d)
                          \<and> wer tg (py_join '' '' (hyp_tokens d)) = Inr (w2 d)"
    using Cons.prems(3) by simp
  from Cons.IH [OF Cons.prems(1) Cons.prems(2) this g, of "Suc it"] cg
  show ?case unfolding step by simp
qed

text \<open>
  C10. With no utterance whose \<^verbatim>\<open>'key'\<close> is the id, \<^verbatim>\<open>print_log_csv\<close> raises
  \<^verbatim>\<open>KeyError: 'prediction'\<close>; with exactly one it raises \<^verbatim>\<open>KeyError: 'target'\<close>;
  in both cases no row is written (only the header, when the file was empty). With two
  or more, and \<^verbatim>\<open>jiwer.wer\<close> returning a value for each prediction, it returns
  normally and appends one row per utterance with the id: the ground truth is the
  reference of the first, the target the reference of the second.
\<close>

theorem print_log_csv_needs_two_matches:
  assumes m: "matching = filter (\<lambda>d. key d = ident) details_by_utterance"
  shows "(length matching = 0 \<longrightarrow>
            fst (print_log_csv P wer details_by_utterance ident f) = Inl (KeyError ''prediction''))
       \<and> (length matching = 1 \<longrightarrow>
            fst (print_log_csv P wer details_by_utterance ident f) = Inl (KeyError ''target''))
       \<and> (length matching \<le> 1 \<longrightarrow>
            content (snd (print_log_csv P wer details_by_utterance ident f)) =
              content f
              @ (if content f = []
                 then ''id,iter,ground_truth,target,prediction,gt_wer,tg_wer'' @ [nl] else []))
       \<and> (2 \<le> length matching
            \<and> (\<forall>d \<in> set matching.
                  wer (py_join '' '' (ref_tokens (matching ! 0))) (py_join '' '' (hyp_tokens d))
                    = Inr (w1 d)
                  \<and> wer (py_join '' '' (ref_tokens (matching ! 1))) (py_join '' '' (hyp_tokens d))
                    = Inr (w2 d)) \<longrightarrow>
            fst (print_log_csv P wer details_by_utterance ident f) = Inr ()
            \<and> content (snd (print_log_csv P wer details_by_utterance ident f)) =
                content f
                @ (if content f = []
                   then ''id,iter,ground_truth,target,prediction,gt_wer,tg_wer'' @ [nl] else [])
                @ concat (map (\<lambda>(it, d).
                    ident @ '','' @ str_int (int it)
                      @ '','' @ py_join '' '' (ref_tokens (matching ! 0))
                      @ '','' @ py_join '' '' (ref_tokens (matching ! 1))
                      @ '','' @ py_join '' '' (hyp_tokens d)
                      @ '','' @ str_float P (float_mul P (w1 d) 100)
                      @ '','' @ str_float P (float_mul P (w2 d) 100) @ [nl])
                    (List.enumerate 0 matching)))"
proof -
  let ?run = "print_log_csv P wer details_by_utterance ident f"
  let ?hd = "[''id'', ''iter'', ''ground_truth'', ''target'', ''prediction'', ''gt_wer'',
             ''tg_wer'']"
  define g where "g = snd (print_csv_header ?hd f)"
  have hdr: "print_csv_header ?hd f = (Inr (), g)"
    by (simp add: g_def print_csv_header_result)
  have cg: "content g = content f
      @ (if content f = []
         then ''id,iter,ground_truth,target,prediction,gt_wer,tg_wer'' @ [nl] else [])"
    by (simp add: g_def print_csv_header_result)
  have eg: "at_end g"
    by (simp add: g_def print_csv_header_result at_end_def)
  consider (none) "matching = []" | (one) m0 where "matching = [m0]"
    | (many) m0 m1 ms where "matching = m0 # m1 # ms"
    by (cases matching; cases "tl matching") auto
  then show ?thesis
  proof cases
    case none
    then have c: "collect_results ident details_by_utterance
        (\<lparr>ground_truth = None, target = None, prediction = None\<rparr>, True) =
        Inr (\<lparr>ground_truth = None, target = None, prediction = None\<rparr>, True)"
      using m by (intro collect_results_none) simp
    have "?run = (Inl (KeyError ''prediction''), g)"
      by (simp add: print_log_csv_def c bnd_lift_Inr results_get_def bnd_def lift_def hdr)
    then show ?thesis using none cg by simp
  next
    case one
    then have c: "collect_results ident details_by_utterance
        (\<lparr>ground_truth = None, target = None, prediction = None\<rparr>, True) =
        Inr (\<lparr>ground_truth = Some (py_join '' '' (ref_tokens m0)), target = None,
              prediction = Some [py_join '' '' (hyp_tokens m0)]\<rparr>, False)"
      using m by (intro collect_results_one) simp
    have "?run = (Inl (KeyError ''target''), g)"
      by (simp add: print_log_csv_def c bnd_lift_Inr results_get_def bnd_def lift_def hdr
          raise_def)
    then show ?thesis using one cg by simp
  next
    case many
    let ?r = "\<lparr>ground_truth = Some (py_join '' '' (ref_tokens m0)),
           target = Some (py_join '' '' (ref_tokens m1)),
           prediction = Some (map (\<lambda>d. py_join '' '' (hyp_tokens d)) (m0 # m1 # ms))\<rparr>"
    have c: "collect_results ident details_by_utterance
        (\<lparr>ground_truth = None, target = None, prediction = None\<rparr>, True) = Inr (?r, False)"
      using many m by (intro collect_results_many) simp
    have run: "?run = print_log_rows P wer ident ?r 0
        (map (\<lambda>d. py_join '' '' (hyp_tokens d)) (m0 # m1 # ms)) g"
      by (simp add: print_log_csv_def c bnd_lift_Inr results_get_def bnd_def hdr)
    show ?thesis
    proof (intro conjI impI)
      assume h: "2 \<le> length matching
            \<and> (\<forall>d \<in> set matching.
                  wer (py_join '' '' (ref_tokens (matching ! 0))) (py_join '' '' (hyp_tokens d))
                    = Inr (w1 d)
                  \<and> wer (py_join '' '' (ref_tokens (matching ! 1))) (py_join '' '' (hyp_tokens d))
                    = Inr (w2 d))"
      have w: "\<forall>p \<in> set (m0 # m1 # ms).
          wer (py_join '' '' (ref_tokens m0)) (py_join '' '' (hyp_tokens p)) = Inr (w1 p)
          \<and> wer (py_join '' '' (ref_tokens m1)) (py_join '' '' (hyp_tokens p)) = Inr (w2 p)"
        using h many by simp
      have eg': "at_end g" by (rule eg)
      have gt: "ground_truth ?r = Some (py_join '' '' (ref_tokens m0))" by simp
      have tg: "target ?r = Some (py_join '' '' (ref_tokens m1))" by simp
      note rows = print_log_rows_ok_map [where P = P and wer = wer and ident = ident
          and it = 0, OF gt tg w eg']
      have m0: "matching ! 0 = m0" and m1: "matching ! 1 = m1" using many by simp_all
      show "fst ?run = Inr ()" unfolding run using rows by blast
      have "content (snd ?run) = content g @ concat (map (\<lambda>(i, d).
             ident @ '','' @ str_int (int i) @ '','' @ py_join '' '' (ref_tokens m0)
               @ '','' @ py_join '' '' (ref_tokens m1)
               @ '','' @ py_join '' '' (hyp_tokens d) @ '',''
               @ str_float P (float_mul P (w1 d) 100) @ '',''
               @ str_float P (float_mul P (w2 d) 100) @ [nl]) (List.enumerate 0 (m0 # m1 # ms)))"
        unfolding run using rows by blast
      then show "content (snd ?run) =
                content f
                @ (if content f = []
                   then ''id,iter,ground_truth,target,prediction,gt_wer,tg_wer'' @ [nl] else [])
                @ concat (map (\<lambda>(it, d).
                    ident @ '','' @ str_int (int it)
                      @ '','' @ py_join '' '' (ref_tokens (matching ! 0))
                      @ '','' @ py_join '' '' (ref_tokens (matching ! 1))
                      @ '','' @ py_join '' '' (hyp_tokens d)
                      @ '','' @ str_float P (float_mul P (w1 d) 100)
                      @ '','' @ str_float P (float_mul P (w2 d) 100) @ [nl])
                    (List.enumerate 0 matching))"
        unfolding m0 m1 cg many [symmetric] by simp
    qed (use many in simp_all)
  qed
qed

theorem print_log_csv_needs_two_matches_witness:
  "fst (print_log_csv sample_floats sample_wer
          [sample_utterance ''a'' True [] [''x''] [''x''],
           sample_utterance ''b'' True [] [''z''] [''z''],
           sample_utterance ''a'' True [] [''y''] [''x'']] ''c''
          \<lparr>content = [], pos = 0\<rparr>) = Inl (KeyError ''prediction'')
   \<and> fst (print_log_csv sample_floats sample_wer
          [sample_utterance ''a'' True [] [''x''] [''x''],
           sample_utterance ''b'' True [] [''z''] [''z''],
           sample_utterance ''a'' True [] [''y''] [''x'']] ''b''
          \<lparr>content = [], pos = 0\<rparr>) = Inl (KeyError ''target'')
   \<and> fst (print_log_csv sample_floats sample_wer
          [sample_utterance ''a'' True [] [''x''] [''x''],
           sample_utterance ''b'' True [] [''z''] [''z''],
           sample_utterance ''a'' True [] [''y''] [''x'']] ''a''
          \<lparr>content = [], pos = 0\<rparr>) = Inr ()
   \<and> content (snd (print_log_csv sample_floats sample_wer
          [sample_utterance ''a'' True [] [''x''] [''x''],
           sample_utterance ''b'' True [] [''z''] [''z''],
           sample_utterance ''a'' True [] [''y''] [''x'']] ''a''
          \<lparr>content = [], pos = 0\<rparr>)) =
       ''id,iter,ground_truth,target,prediction,gt_wer,tg_wer'' @ [nl]
       @ ''a,0,x,y,x,0.0,100.0'' @ [nl]
       @ ''a,1,x,y,x,0.0,100.0'' @ [nl]"
  using
    print_log_csv_needs_two_matches [where ident = "''c''" and details_by_utterance =
      "[sample_utterance ''a'' True [] [''x''] [''x''],
           sample_utterance ''b'' True [] [''z''] [''z''],
           sample_utterance ''a'' True [] [''y''] [''x'']]"
      and P = sample_floats and wer = sample_wer and f = "\<lparr>content = [], pos = 0\<rparr>",
      OF refl]
    print_log_csv_needs_two_matches [where ident = "''b''" and details_by_utterance =
      "[sample_utterance ''a'' True [] [''x''] [''x''],
           sample_utterance ''b'' True [] [''z''] [''z''],
           sample_utterance ''a'' True [] [''y''] [''x'']]"
      and P = sample_floats and wer = sample_wer and f = "\<lparr>content = [], pos = 0\<rparr>",
      OF refl]
    print_log_csv_needs_two_matches [where ident = "''a''" and details_by_utterance =
      "[sample_utterance ''a'' True [] [''x''] [''x''],
           sample_utterance ''b'' True [] [''z''] [''z''],
           sample_utterance ''a'' True [] [''y''] [''x'']]"
      and P = sample_floats and wer = sample_wer and f = "\<lparr>content = [], pos = 0\<rparr>" and ?w1.0 = "\<lambda>d. 0" and ?w2.0 = "\<lambda>d. 1",
      OF refl]
  by (simp add: sample_utterance_def sample_wer_def sample_floats_def str_int_def digits.simps
        enumerate_eq_zip)

section \<open>print\_alignments: which utterances get a block, and its columns\<close>

lemma length_center: "length (center s w) = max w (length s)"
  by (auto simp add: center_def Let_def)

lemma bnd_Inr_iff:
  "bnd m k s = (Inr y, s'') \<longleftrightarrow> (\<exists>x s'. m s = (Inr x, s') \<and> k x s' = (Inr y, s''))"
  by (cases "m s") (auto simp add: bnd_def split: sum.splits)

lemma pad_column_Inr:
  assumes "pad_column es a b (op_string, i, j) = Inr (x, y, z)"
  shows "\<exists>a_string b_string.
           (case i of None \<Rightarrow> a_string = es | Some i' \<Rightarrow> py_index a i' = Inr a_string) \<and>
           (case j of None \<Rightarrow> b_string = es | Some j' \<Rightarrow> py_index b j' = Inr b_string) \<and>
           x = center a_string (max (length op_string) (max (length a_string) (length b_string))) \<and>
           z = center op_string (max (length op_string) (max (length a_string) (length b_string))) \<and>
           y = center b_string (max (length op_string) (max (length a_string) (length b_string)))"
  using assms
  by (auto simp add: pad_column_def Let_def split: option.splits sum.splits)

lemma pad_alignment_acc:
  assumes "pad_alignment es a b al (xa, xb, xo) = Inr (ap, bp, opp)"
  shows "\<exists>ca cb co. ap = xa @ ca \<and> bp = xb @ cb \<and> opp = xo @ co \<and>
           length ca = length al \<and> length cb = length al \<and> length co = length al \<and>
           (\<forall>k < length al. pad_column es a b (al ! k) = Inr (ca ! k, cb ! k, co ! k))"
  using assms
proof (induction al arbitrary: xa xb xo)
  case Nil
  then show ?case by simp
next
  case (Cons col al)
  from Cons.prems obtain x y z where
    col: "pad_column es a b col = Inr (x, y, z)" and
    rest: "pad_alignment es a b al (xa @ [x], xb @ [y], xo @ [z]) = Inr (ap, bp, opp)"
    by (auto split: sum.splits)
  from Cons.IH [OF rest] obtain ca cb co where
    r: "ap = (xa @ [x]) @ ca" "bp = (xb @ [y]) @ cb" "opp = (xo @ [z]) @ co"
       "length ca = length al" "length cb = length al" "length co = length al"
       "\<forall>k < length al. pad_column es a b (al ! k) = Inr (ca ! k, cb ! k, co ! k)"
    by blast
  have "\<forall>k < length (col # al).
      pad_column es a b ((col # al) ! k) = Inr ((x # ca) ! k, (y # cb) ! k, (z # co) ! k)"
  proof (intro allI impI)
    fix k assume "k < length (col # al)"
    then show "pad_column es a b ((col # al) ! k) = Inr ((x # ca) ! k, (y # cb) ! k, (z # co) ! k)"
      using col r(7) by (cases k) simp_all
  qed
  then show ?case
    using r(1-6) by (intro exI [of _ "x # ca"] exI [of _ "y # cb"] exI [of _ "z # co"]) simp
qed

lemma pad_alignment_padded_fields:
  assumes "pad_alignment es (ref_tokens d) (hyp_tokens d) (alignment d) ([], [], []) =
             Inr (ap, bp, opp)"
  shows "padded_fields es d (ap, opp, bp)"
proof -
  from pad_alignment_acc [OF assms] have
    len: "length ap = length (alignment d)" "length bp = length (alignment d)"
         "length opp = length (alignment d)" and
    cols: "\<forall>k < length (alignment d).
             pad_column es (ref_tokens d) (hyp_tokens d) (alignment d ! k) =
               Inr (ap ! k, bp ! k, opp ! k)"
    by auto
  have "\<forall>k < length (alignment d).
           case alignment d ! k of (op_string, i, j) \<Rightarrow>
             (\<exists>a_string b_string.
                (case i of None \<Rightarrow> a_string = es
                 | Some i' \<Rightarrow> py_index (ref_tokens d) i' = Inr a_string) \<and>
                (case j of None \<Rightarrow> b_string = es
                 | Some j' \<Rightarrow> py_index (hyp_tokens d) j' = Inr b_string) \<and>
                ap ! k =
                  center a_string (max (length op_string) (max (length a_string) (length b_string))) \<and>
                opp ! k =
                  center op_string (max (length op_string) (max (length a_string) (length b_string))) \<and>
                bp ! k =
                  center b_string (max (length op_string) (max (length a_string) (length b_string))) \<and>
                length (ap ! k) =
                  max (length op_string) (max (length a_string) (length b_string)) \<and>
                length (opp ! k) =
                  max (length op_string) (max (length a_string) (length b_string)) \<and>
                length (bp ! k) =
                  max (length op_string) (max (length a_string) (length b_string)))"
  proof (intro allI impI)
    fix k assume k: "k < length (alignment d)"
    obtain op_string i j where c: "alignment d ! k = (op_string, i, j)"
      by (cases "alignment d ! k") auto
    from cols k have "pad_column es (ref_tokens d) (hyp_tokens d) (alignment d ! k) =
        Inr (ap ! k, bp ! k, opp ! k)" by blast
    then have "pad_column es (ref_tokens d) (hyp_tokens d) (op_string, i, j) =
        Inr (ap ! k, bp ! k, opp ! k)" unfolding c .
    from pad_column_Inr [OF this] obtain a_string b_string where
      p: "(case i of None \<Rightarrow> a_string = es
           | Some i' \<Rightarrow> py_index (ref_tokens d) i' = Inr a_string)"
         "(case j of None \<Rightarrow> b_string = es
           | Some j' \<Rightarrow> py_index (hyp_tokens d) j' = Inr b_string)"
         "ap ! k = center a_string (max (length op_string) (max (length a_string) (length b_string)))"
         "opp ! k = center op_string (max (length op_string) (max (length a_string) (length b_string)))"
         "bp ! k = center b_string (max (length op_string) (max (length a_string) (length b_string)))"
      by blast
    have l: "length (ap ! k) = max (length op_string) (max (length a_string) (length b_string))"
         "length (opp ! k) = max (length op_string) (max (length a_string) (length b_string))"
         "length (bp ! k) = max (length op_string) (max (length a_string) (length b_string))"
      unfolding p(3-5) length_center by simp_all
    show "case alignment d ! k of (op_string, i, j) \<Rightarrow>
             (\<exists>a_string b_string.
                (case i of None \<Rightarrow> a_string = es
                 | Some i' \<Rightarrow> py_index (ref_tokens d) i' = Inr a_string) \<and>
                (case j of None \<Rightarrow> b_string = es
                 | Some j' \<Rightarrow> py_index (hyp_tokens d) j' = Inr b_string) \<and>
                ap ! k =
                  center a_string (max (length op_string) (max (length a_string) (length b_string))) \<and>
                opp ! k =
                  center op_string (max (length op_string) (max (length a_string) (length b_string))) \<and>
                bp ! k =
                  center b_string (max (length op_string) (max (length a_string) (length b_string))) \<and>
                length (ap ! k) =
                  max (length op_string) (max (length a_string) (length b_string)) \<and>
                length (opp ! k) =
                  max (length op_string) (max (length a_string) (length b_string)) \<and>
                length (bp ! k) =
                  max (length op_string) (max (length a_string) (length b_string)))"
      unfolding c using p l by blast
  qed
  then show ?thesis using len by (simp add: padded_fields_def)
qed

lemma file_write_Nil: "file_write [] f = f"
  by (simp add: file_write_def)

lemma print_alignment_header_write:
  "print_alignment_header P d f =
     (Inr (), file_write
        (replicate 80 (CHR ''='') @ [nl]
         @ key d @ '', %WER '' @ fmt_2f P (WER d)
         @ '' [ '' @ py_str P (num_edits d) @ '' / '' @ py_str P (num_ref_tokens d)
         @ '', '' @ py_str P (insertions d) @ '' ins, '' @ py_str P (deletions d)
         @ '' del, '' @ py_str P (substitutions d) @ '' sub ]'' @ [nl]) f)"
  by (simp add: print_alignment_header_def bnd_print_to print_to_def py_print_write
      file_write_file_write)

lemma print_alignment_Inr:
  assumes "print_alignment al a b es sep f = (Inr (), f1)"
  shows "\<exists>ap bp opp. pad_alignment es a b al ([], [], []) = Inr (ap, bp, opp) \<and>
           f1 = file_write (py_join sep ap @ [nl] @ py_join sep opp @ [nl]
                            @ py_join sep bp @ [nl]) f"
proof (cases "pad_alignment es a b al ([], [], [])")
  case (Inl e)
  then show ?thesis using assms
    by (simp add: print_alignment_def bnd_lift_Inl raise_def)
next
  case (Inr r)
  obtain ap bp opp where r: "r = (ap, bp, opp)" by (cases r) auto
  have "print_alignment al a b es sep f =
      (Inr (), file_write (py_join sep ap @ [nl] @ py_join sep opp @ [nl]
                            @ py_join sep bp @ [nl]) f)"
    by (simp add: print_alignment_def Inr r bnd_lift_Inr bnd_print_to print_to_def
        py_print_write file_write_file_write)
  then show ?thesis using assms Inr r by simp
qed

lemma sample_separator_write:
  "(case ss of None \<Rightarrow> ret () | Some s \<Rightarrow> if s \<noteq> [] then print_to s [nl] else ret ()) f =
     (Inr (), file_write (case ss of None \<Rightarrow> [] | Some s \<Rightarrow> if s \<noteq> [] then s @ [nl] else []) f)"
  by (simp add: ret_def print_to_def py_print_write file_write_Nil split: option.splits)

lemma block_run:
  assumes "bnd (if ph then print_alignment_header P d else ret ()) (\<lambda>_.
           bnd (print_alignment (alignment d) (ref_tokens d) (hyp_tokens d) es sep) (\<lambda>_.
           (case ss of None \<Rightarrow> ret ()
            | Some s \<Rightarrow> if s \<noteq> [] then print_to s [nl] else ret ()))) f = (Inr (), f1)"
  shows "\<exists>ap bp opp.
           pad_alignment es (ref_tokens d) (hyp_tokens d) (alignment d) ([], [], []) =
             Inr (ap, bp, opp) \<and>
           f1 = file_write
             ((if ph then replicate 80 (CHR ''='') @ [nl]
                 @ key d @ '', %WER '' @ fmt_2f P (WER d)
                 @ '' [ '' @ py_str P (num_edits d) @ '' / '' @ py_str P (num_ref_tokens d)
                 @ '', '' @ py_str P (insertions d) @ '' ins, '' @ py_str P (deletions d)
                 @ '' del, '' @ py_str P (substitutions d) @ '' sub ]'' @ [nl]
               else [])
              @ py_join sep ap @ [nl] @ py_join sep opp @ [nl] @ py_join sep bp @ [nl]
              @ (case ss of None \<Rightarrow> [] | Some s \<Rightarrow> if s \<noteq> [] then s @ [nl] else [])) f"
proof -
  let ?h = "if ph then replicate 80 (CHR ''='') @ [nl]
                 @ key d @ '', %WER '' @ fmt_2f P (WER d)
                 @ '' [ '' @ py_str P (num_edits d) @ '' / '' @ py_str P (num_ref_tokens d)
                 @ '', '' @ py_str P (insertions d) @ '' ins, '' @ py_str P (deletions d)
                 @ '' del, '' @ py_str P (substitutions d) @ '' sub ]'' @ [nl]
               else []"
  have h: "(if ph then print_alignment_header P d else ret ()) f = (Inr (), file_write ?h f)"
    by (simp add: print_alignment_header_write ret_def file_write_Nil)
  from assms obtain u f2 where
    a: "print_alignment (alignment d) (ref_tokens d) (hyp_tokens d) es sep (file_write ?h f) =
          (Inr u, f2)" and
    s: "(case ss of None \<Rightarrow> ret () | Some s \<Rightarrow> if s \<noteq> [] then print_to s [nl] else ret ()) f2 =
          (Inr (), f1)"
    unfolding bnd_Inr_iff h by auto
  from print_alignment_Inr [of "alignment d" "ref_tokens d" "hyp_tokens d" es sep
      "file_write ?h f" f2] a
  obtain ap bp opp where
    p: "pad_alignment es (ref_tokens d) (hyp_tokens d) (alignment d) ([], [], []) =
          Inr (ap, bp, opp)" and
    f2: "f2 = file_write (py_join sep ap @ [nl] @ py_join sep opp @ [nl]
                            @ py_join sep bp @ [nl]) (file_write ?h f)"
    by auto
  from s have "f1 = file_write
      (case ss of None \<Rightarrow> [] | Some s \<Rightarrow> if s \<noteq> [] then s @ [nl] else []) f2"
    unfolding sample_separator_write by simp
  then have "f1 = file_write (?h @ (py_join sep ap @ [nl] @ py_join sep opp @ [nl]
                 @ py_join sep bp @ [nl])
              @ (case ss of None \<Rightarrow> [] | Some s \<Rightarrow> if s \<noteq> [] then s @ [nl] else [])) f"
    unfolding f2 file_write_file_write by (simp only: append_assoc)
  then show ?thesis using p by (intro exI [of _ ap] exI [of _ bp] exI [of _ opp]) simp
qed

lemma print_alignments_from_blocks:
  assumes t: "total_iters \<noteq> 0"
      and run: "print_alignments_from P empty_symbol separator print_header sample_separator
                  total_iters n dets f = (Inr (), f')"
  shows "\<exists>cols.
           list_all2 (padded_fields empty_symbol)
             (map snd (filter (\<lambda>(index, d). total_iters dvd int index \<and> scored d)
                         (List.enumerate n dets))) cols \<and>
           f' = file_write
             (concat (map2 (\<lambda>d (ref_fields, op_fields, hyp_fields).
                (if print_header
                 then replicate 80 (CHR ''='') @ [nl]
                   @ key d @ '', %WER '' @ fmt_2f P (WER d)
                   @ '' [ '' @ py_str P (num_edits d) @ '' / '' @ py_str P (num_ref_tokens d)
                   @ '', '' @ py_str P (insertions d) @ '' ins, '' @ py_str P (deletions d)
                   @ '' del, '' @ py_str P (substitutions d) @ '' sub ]'' @ [nl]
                 else [])
                @ py_join separator ref_fields @ [nl]
                @ py_join separator op_fields @ [nl]
                @ py_join separator hyp_fields @ [nl]
                @ (case sample_separator of
                     None \<Rightarrow> []
                   | Some s \<Rightarrow> if s \<noteq> [] then s @ [nl] else []))
                (map snd (filter (\<lambda>(index, d). total_iters dvd int index \<and> scored d)
                            (List.enumerate n dets))) cols)) f"
  using run
proof (induction dets arbitrary: n f)
  case Nil
  then show ?case by (simp add: ret_def file_write_Nil)
next
  case (Cons d dets)
  let ?txt = "(\<lambda>d (ref_fields, op_fields, hyp_fields).
                (if print_header
                 then replicate 80 (CHR ''='') @ [nl]
                   @ key d @ '', %WER '' @ fmt_2f P (WER d)
                   @ '' [ '' @ py_str P (num_edits d) @ '' / '' @ py_str P (num_ref_tokens d)
                   @ '', '' @ py_str P (insertions d) @ '' ins, '' @ py_str P (deletions d)
                   @ '' del, '' @ py_str P (substitutions d) @ '' sub ]'' @ [nl]
                 else [])
                @ py_join separator ref_fields @ [nl]
                @ py_join separator op_fields @ [nl]
                @ py_join separator hyp_fields @ [nl]
                @ (case sample_separator of
                     None \<Rightarrow> []
                   | Some s \<Rightarrow> if s \<noteq> [] then s @ [nl] else []))"
  let ?sel = "\<lambda>n dets. map snd (filter (\<lambda>(index, d). total_iters dvd int index \<and> scored d)
                         (List.enumerate n dets))"
  let ?body = "if int n mod total_iters = 0 then
               (if scored d then
                  bnd (if print_header then print_alignment_header P d else ret ()) (\<lambda>_.
                  bnd (print_alignment (alignment d) (ref_tokens d) (hyp_tokens d)
                         empty_symbol separator) (\<lambda>_.
                  (case sample_separator of
                     None \<Rightarrow> ret ()
                   | Some s \<Rightarrow> if s \<noteq> [] then print_to s [nl] else ret ())))
                else ret ())
             else ret ()"
  from Cons.prems t obtain u f1 where
    body: "?body f = (Inr u, f1)" and
    rest: "print_alignments_from P empty_symbol separator print_header sample_separator
             total_iters (Suc n) dets f1 = (Inr (), f')"
    by (auto simp add: bnd_Inr_iff)
  from Cons.IH [OF rest] obtain cols where
    c: "list_all2 (padded_fields empty_symbol) (?sel (Suc n) dets) cols" and
    f': "f' = file_write (concat (map2 ?txt (?sel (Suc n) dets) cols)) f1"
    by blast
  show ?case
  proof (cases "total_iters dvd int n \<and> scored d")
    case False
    then have "?body f = (Inr (), f)"
      by (auto simp add: ret_def dvd_eq_mod_eq_0)
    then have "f1 = f" using body by simp
    moreover have "?sel n (d # dets) = ?sel (Suc n) dets"
      using False by auto
    ultimately show ?thesis using c f' by auto
  next
    case True
    then have "?body f =
        bnd (if print_header then print_alignment_header P d else ret ()) (\<lambda>_.
        bnd (print_alignment (alignment d) (ref_tokens d) (hyp_tokens d)
               empty_symbol separator) (\<lambda>_.
        (case sample_separator of
           None \<Rightarrow> ret ()
         | Some s \<Rightarrow> if s \<noteq> [] then print_to s [nl] else ret ()))) f"
      by (simp add: dvd_eq_mod_eq_0)
    with body have "bnd (if print_header then print_alignment_header P d else ret ()) (\<lambda>_.
        bnd (print_alignment (alignment d) (ref_tokens d) (hyp_tokens d)
               empty_symbol separator) (\<lambda>_.
        (case sample_separator of
           None \<Rightarrow> ret ()
         | Some s \<Rightarrow> if s \<noteq> [] then print_to s [nl] else ret ()))) f = (Inr (), f1)"
      by simp
    from block_run [OF this] obtain ap bp opp where
      p: "pad_alignment empty_symbol (ref_tokens d) (hyp_tokens d) (alignment d) ([], [], []) =
            Inr (ap, bp, opp)" and
      f1: "f1 = file_write (?txt d (ap, opp, bp)) f"
      by auto
    have pf: "padded_fields empty_symbol d (ap, opp, bp)"
      using p by (rule pad_alignment_padded_fields)
    have sel: "?sel n (d # dets) = d # ?sel (Suc n) dets"
      using True by simp
    have "f' = file_write (?txt d (ap, opp, bp) @ concat (map2 ?txt (?sel (Suc n) dets) cols)) f"
      unfolding f' f1 file_write_file_write ..
    then have "f' = file_write (concat (map2 ?txt (?sel n (d # dets)) ((ap, opp, bp) # cols))) f"
      unfolding sel by simp
    moreover have "list_all2 (padded_fields empty_symbol) (?sel n (d # dets)) ((ap, opp, bp) # cols)"
      unfolding sel using pf c by simp
    ultimately show ?thesis by blast
  qed
qed

text \<open>
  The call returns normally when \<^verbatim>\<open>total_iters\<close> is not zero and the alignment of
  every utterance that gets a block indexes its token lists in range.
\<close>

lemma print_alignment_returns:
  assumes "pad_alignment es a b al ([], [], []) = Inr c"
  shows "fst (print_alignment al a b es sep f) = Inr ()"
proof -
  obtain ap bp opp where c: "c = (ap, bp, opp)" by (cases c) auto
  show ?thesis
    by (simp add: print_alignment_def assms c bnd_lift_Inr bnd_print_to print_to_def)
qed

lemma block_returns:
  assumes "pad_alignment es (ref_tokens d) (hyp_tokens d) (alignment d) ([], [], []) = Inr c"
  shows "\<exists>f1. bnd (if ph then print_alignment_header P d else ret ()) (\<lambda>_.
           bnd (print_alignment (alignment d) (ref_tokens d) (hyp_tokens d) es sep) (\<lambda>_.
           (case ss of None \<Rightarrow> ret ()
            | Some s \<Rightarrow> if s \<noteq> [] then print_to s [nl] else ret ()))) f = (Inr (), f1)"
proof -
  have "\<exists>f0. (if ph then print_alignment_header P d else ret ()) f = (Inr (), f0)"
    by (simp add: print_alignment_header_write ret_def)
  then obtain f0 where h: "(if ph then print_alignment_header P d else ret ()) f = (Inr (), f0)"
    by blast
  obtain f2 where a: "print_alignment (alignment d) (ref_tokens d) (hyp_tokens d) es sep f0 =
      (Inr (), f2)"
    using print_alignment_returns [OF assms, of sep f0]
    by (cases "print_alignment (alignment d) (ref_tokens d) (hyp_tokens d) es sep f0") simp
  show ?thesis
    unfolding bnd_Inr_iff using h a sample_separator_write [of ss f2] by blast
qed

lemma print_alignments_from_returns:
  assumes t: "total_iters \<noteq> 0"
      and ok: "\<forall>d \<in> set (map snd (filter (\<lambda>(index, d). total_iters dvd int index \<and> scored d)
                                   (List.enumerate n dets))).
                 \<exists>c. pad_alignment empty_symbol (ref_tokens d) (hyp_tokens d) (alignment d)
                        ([], [], []) = Inr c"
  shows "fst (print_alignments_from P empty_symbol separator print_header sample_separator
                total_iters n dets f) = Inr ()"
  using ok
proof (induction dets arbitrary: n f)
  case Nil
  then show ?case by (simp add: ret_def)
next
  case (Cons d dets)
  let ?body = "if int n mod total_iters = 0 then
               (if scored d then
                  bnd (if print_header then print_alignment_header P d else ret ()) (\<lambda>_.
                  bnd (print_alignment (alignment d) (ref_tokens d) (hyp_tokens d)
                         empty_symbol separator) (\<lambda>_.
                  (case sample_separator of
                     None \<Rightarrow> ret ()
                   | Some s \<Rightarrow> if s \<noteq> [] then print_to s [nl] else ret ())))
                else ret ())
             else ret ()"
  have rest: "\<forall>d \<in> set (map snd (filter (\<lambda>(index, d). total_iters dvd int index \<and> scored d)
                                   (List.enumerate (Suc n) dets))).
                 \<exists>c. pad_alignment empty_symbol (ref_tokens d) (hyp_tokens d) (alignment d)
                        ([], [], []) = Inr c"
    using Cons.prems by auto
  have "\<exists>f1. ?body f = (Inr (), f1)"
  proof (cases "total_iters dvd int n \<and> scored d")
    case False
    then show ?thesis by (auto simp add: ret_def dvd_eq_mod_eq_0)
  next
    case True
    then obtain c where "pad_alignment empty_symbol (ref_tokens d) (hyp_tokens d) (alignment d)
                        ([], [], []) = Inr c"
      using Cons.prems by auto
    from block_returns [OF this, of print_header P separator sample_separator f] True
    show ?thesis by (simp add: dvd_eq_mod_eq_0)
  qed
  then obtain f1 where b: "?body f = (Inr (), f1)" by blast
  have "print_alignments_from P empty_symbol separator print_header sample_separator
          total_iters n (d # dets) f =
        print_alignments_from P empty_symbol separator print_header sample_separator
          total_iters (Suc n) dets f1"
    using t b by (simp add: bnd_def)
  then show ?case using Cons.IH [OF rest] by simp
qed

lemma sample_pad:
  "pad_alignment ''<eps>'' sample_reference sample_hypothesis sample_alignment ([], [], []) =
     Inr ([''<eps>'', ''reference '', ''on'', ''the'', ''first'', '' line''],
          ['' and '', ''hypothesis'', ''on'', ''the'', ''third'', ''<eps>''],
          [''  I  '', ''    S     '', ''= '', '' = '', ''  S  '', ''  D  ''])"
  by (simp add: sample_alignment_def sample_reference_def sample_hypothesis_def pad_column_def
      py_index_def center_def Let_def)

text \<open>
  C7, for a \<^verbatim>\<open>total_iters\<close> other than zero. When \<^verbatim>\<open>print_alignments\<close> returns
  normally, what it wrote is, in order, one block for each utterance whose index is a
  multiple of \<^verbatim>\<open>total_iters\<close> and whose \<^verbatim>\<open>'scored'\<close> flag is true, and nothing
  else. A block is the header (when \<^verbatim>\<open>print_header\<close>), the line of the reference
  fields, the line of the edit operations, the line of the hypothesis fields, each
  joined with the separator, and the sample separator (when one is given); the three
  lists of fields are padded as \<open>padded_fields\<close> says.
\<close>

theorem print_alignments_blocks:
  assumes "total_iters \<noteq> 0"
      and "print_alignments P details_by_utterance empty_symbol separator print_header
             sample_separator total_iters f = (Inr (), f')"
      and "selected =
             map snd (filter (\<lambda>(index, d). total_iters dvd int index \<and> scored d)
                        (List.enumerate 0 details_by_utterance))"
  shows "\<exists>cols.
           list_all2 (padded_fields empty_symbol) selected cols \<and>
           f' = file_write (concat (map2 (\<lambda>d (ref_fields, op_fields, hyp_fields).
                (if print_header
                 then replicate 80 (CHR ''='') @ [nl]
                   @ key d @ '', %WER '' @ fmt_2f P (WER d)
                   @ '' [ '' @ py_str P (num_edits d) @ '' / '' @ py_str P (num_ref_tokens d)
                   @ '', '' @ py_str P (insertions d) @ '' ins, '' @ py_str P (deletions d)
                   @ '' del, '' @ py_str P (substitutions d) @ '' sub ]'' @ [nl]
                 else [])
                @ py_join separator ref_fields @ [nl]
                @ py_join separator op_fields @ [nl]
                @ py_join separator hyp_fields @ [nl]
                @ (case sample_separator of
                     None \<Rightarrow> []
                   | Some s \<Rightarrow> if s \<noteq> [] then s @ [nl] else [])) selected cols)) f"
  using print_alignments_from_blocks [OF assms(1) assms(2) [unfolded print_alignments_def]]
  unfolding assms(3) .

theorem print_alignments_blocks_witness:
  "fst (print_alignments sample_floats sample_details ''<eps>'' '' ; '' True (Some ''--'') 2
          \<lparr>content = [], pos = 0\<rparr>) = Inr ()
   \<and> (\<exists>cols.
         list_all2 (padded_fields ''<eps>'')
           [sample_utterance ''utt1'' True sample_alignment sample_reference sample_hypothesis]
           cols
         \<and> content (snd (print_alignments sample_floats sample_details ''<eps>'' '' ; '' True
                           (Some ''--'') 2 \<lparr>content = [], pos = 0\<rparr>)) =
             concat (map2 (\<lambda>d (ref_fields, op_fields, hyp_fields).
                replicate 80 (CHR ''='') @ [nl]
                @ ''utt1, %WER 50.00 [ 1 / 2, 0 ins, 0 del, 1 sub ]'' @ [nl]
                @ py_join '' ; '' ref_fields @ [nl]
                @ py_join '' ; '' op_fields @ [nl]
                @ py_join '' ; '' hyp_fields @ [nl]
                @ ''--'' @ [nl])
               [sample_utterance ''utt1'' True sample_alignment sample_reference
                  sample_hypothesis]
               cols))"
proof -
  let ?run = "print_alignments sample_floats sample_details ''<eps>'' '' ; '' True (Some ''--'') 2
          \<lparr>content = [], pos = 0\<rparr>"
  have r: "fst ?run = Inr ()"
    unfolding print_alignments_def
    by (rule print_alignments_from_returns)
       (simp_all add: sample_details_def sample_utterance_def enumerate_eq_zip upt_rec sample_pad)
  have run: "?run = (Inr (), snd ?run)"
    using r by (cases ?run) simp
  have sel: "[sample_utterance ''utt1'' True sample_alignment sample_reference sample_hypothesis] =
      map snd (filter (\<lambda>(index, d). (2::int) dvd int index \<and> scored d)
                 (List.enumerate 0 sample_details))"
    by (simp add: sample_details_def sample_utterance_def enumerate_eq_zip upt_rec)
  have t: "(2::int) \<noteq> 0" by simp
  from print_alignments_blocks [OF t run sel] obtain cols where
    c: "list_all2 (padded_fields ''<eps>'')
           [sample_utterance ''utt1'' True sample_alignment sample_reference sample_hypothesis]
           cols" and
    f: "snd ?run = file_write (concat (map2 (\<lambda>d (ref_fields, op_fields, hyp_fields).
                (if True
                 then replicate 80 (CHR ''='') @ [nl]
                   @ key d @ '', %WER '' @ fmt_2f sample_floats (WER d)
                   @ '' [ '' @ py_str sample_floats (num_edits d) @ '' / ''
                   @ py_str sample_floats (num_ref_tokens d)
                   @ '', '' @ py_str sample_floats (insertions d) @ '' ins, ''
                   @ py_str sample_floats (deletions d)
                   @ '' del, '' @ py_str sample_floats (substitutions d) @ '' sub ]'' @ [nl]
                 else [])
                @ py_join '' ; '' ref_fields @ [nl]
                @ py_join '' ; '' op_fields @ [nl]
                @ py_join '' ; '' hyp_fields @ [nl]
                @ (case Some ''--'' of
                     None \<Rightarrow> []
                   | Some s \<Rightarrow> if s \<noteq> [] then s @ [nl] else []))
               [sample_utterance ''utt1'' True sample_alignment sample_reference
                  sample_hypothesis]
               cols)) \<lparr>content = [], pos = 0\<rparr>"
    by blast
  from c obtain c0 where cols: "cols = [c0]"
    by (auto simp add: list_all2_Cons1)
  obtain rf opf hf where c0: "c0 = (rf, opf, hf)" by (cases c0) auto
  have "content (snd ?run) =
             concat (map2 (\<lambda>d (ref_fields, op_fields, hyp_fields).
                replicate 80 (CHR ''='') @ [nl]
                @ ''utt1, %WER 50.00 [ 1 / 2, 0 ins, 0 del, 1 sub ]'' @ [nl]
                @ py_join '' ; '' ref_fields @ [nl]
                @ py_join '' ; '' op_fields @ [nl]
                @ py_join '' ; '' hyp_fields @ [nl]
                @ ''--'' @ [nl])
               [sample_utterance ''utt1'' True sample_alignment sample_reference
                  sample_hypothesis]
               cols)"
    unfolding f cols c0
    by (simp add: file_write_def sample_utterance_def sample_floats_def str_int_def digits.simps)
  with r c show ?thesis by blast
qed

text \<open>
  With \<^verbatim>\<open>total_iters = 0\<close> and a list that is not empty, the call raises
  \<^verbatim>\<open>ZeroDivisionError\<close> and writes nothing.
\<close>

lemma print_alignments_zero_total_iters_raises:
  "print_alignments P (d # ds) empty_symbol separator print_header sample_separator 0 f =
     (Inl ZeroDivisionError, f)"
  by (simp add: print_alignments_def raise_def)

text \<open>
  With \<^verbatim>\<open>total_iters = 0\<close> the index 0 is a multiple of \<^verbatim>\<open>total_iters\<close> and the
  first utterance is scored, yet no block is printed: \<^verbatim>\<open>index % total_iters\<close> raises
  \<^verbatim>\<open>ZeroDivisionError\<close>.
\<close>

theorem print_alignments_zero_total_iters:
  "(0::int) dvd int 0
   \<and> scored (sample_utterance ''utt1'' True sample_alignment sample_reference sample_hypothesis)
   \<and> print_alignments sample_floats
       [sample_utterance ''utt1'' True sample_alignment sample_reference sample_hypothesis]
       ''<eps>'' '' ; '' True None 0 \<lparr>content = [], pos = 0\<rparr> =
     (Inl ZeroDivisionError, \<lparr>content = [], pos = 0\<rparr>)"
  by (simp add: print_alignments_def raise_def sample_utterance_def)

section \<open>compute\_forward\_adversarial: what a normal return means\<close>

lemma call_Inr_iff:
  "call ev f s = (Inr r, s') \<longleftrightarrow>
     (\<exists>b' w'. f (cur_batch s, world s) = (Inr r, b', w') \<and>
        s' = s\<lparr>cur_batch := b', world := w', calls := calls s @ [ev r (cur_batch s)]\<rparr>)"
  by (cases "f (cur_batch s, world s)") (auto simp add: call_def split: sum.splits)

lemma ret_Inr_iff: "ret x s = (Inr y, s') \<longleftrightarrow> y = x \<and> s' = s"
  by (auto simp add: ret_def)

lemma raise_not_Inr: "raise e s \<noteq> (Inr y, s')"
  by (simp add: raise_def)

lemma get_batch_Inr_iff: "get_batch s = (Inr b, s') \<longleftrightarrow> b = cur_batch s \<and> s' = s"
  by (auto simp add: get_batch_def)

lemma modify_batch_Inr_iff:
  "modify_batch g s = (Inr u, s') \<longleftrightarrow> s' = s\<lparr>cur_batch := g (cur_batch s)\<rparr>"
  by (auto simp add: modify_batch_def)

lemma compute_forward_adversarial_Inr:
  assumes "compute_forward_adversarial B stage s = (Inr res, s')"
  shows "\<exists>perturb adv bp wp bf wf.
           stage \<noteq> ATTACK \<and>
           attacker B = Attacker perturb \<and>
           perturb (cur_batch s, world s) = (Inr adv, bp, wp) \<and>
           compute_forward B stage (bp\<lparr>sig := (adv, snd (sig bp))\<rparr>, wp) = (Inr res, bf, wf) \<and>
           s' = s\<lparr>cur_batch := bf\<lparr>sig := (fst (sig (cur_batch s)), snd (sig bf))\<rparr>,
                  world := wf,
                  calls := calls s @ [Perturb (cur_batch s) adv,
                                      ComputeForward (bp\<lparr>sig := (adv, snd (sig bp))\<rparr>) stage res]\<rparr>"
proof -
  have st: "stage \<noteq> ATTACK"
    using assms by (auto simp add: compute_forward_adversarial_def raise_def)
  show ?thesis
  proof (cases "attacker B")
    case Unset
    then show ?thesis using assms st
      by (simp add: compute_forward_adversarial_def bnd_Inr_iff get_batch_Inr_iff raise_not_Inr)
  next
    case IsNone
    then show ?thesis using assms st
      by (auto simp add: compute_forward_adversarial_def bnd_Inr_iff get_batch_Inr_iff
          ret_Inr_iff raise_not_Inr Let_def)
  next
    case (Attacker perturb)
    then show ?thesis using assms st
      by (auto simp add: compute_forward_adversarial_def bnd_Inr_iff get_batch_Inr_iff
          ret_Inr_iff call_Inr_iff modify_batch_Inr_iff Let_def)
  qed
qed

text \<open>
  C3, as far as the code goes. When \<^verbatim>\<open>compute_forward_adversarial\<close> returns
  normally, \<^verbatim>\<open>batch.sig[0]\<close> is again the tensor object the batch held before the
  call, whatever the attacker and \<^verbatim>\<open>compute_forward\<close> did to the batch in between:
  the tensor the attacker returned does not stay in the batch. That tensor holds the
  clean waveform it held before the call when neither the attacker nor
  \<^verbatim>\<open>compute_forward\<close> changes it in place.
\<close>

theorem compute_forward_adversarial_restores_tensor:
  assumes "compute_forward_adversarial B stage s = (Inr res, s')"
  shows "fst (sig (cur_batch s')) = fst (sig (cur_batch s))
       \<and> ((\<forall>perturb. attacker B = Attacker perturb \<longrightarrow>
                keeps_tensor (fst (sig (cur_batch s))) perturb)
           \<and> keeps_tensor (fst (sig (cur_batch s))) (compute_forward B stage)
          \<longrightarrow> tensor_data (world s') (fst (sig (cur_batch s')))
                = tensor_data (world s) (fst (sig (cur_batch s))))"
proof -
  from compute_forward_adversarial_Inr [OF assms] obtain perturb adv bp wp bf wf where
    a: "attacker B = Attacker perturb" and
    p: "perturb (cur_batch s, world s) = (Inr adv, bp, wp)" and
    f: "compute_forward B stage (bp\<lparr>sig := (adv, snd (sig bp))\<rparr>, wp) = (Inr res, bf, wf)" and
    s': "s' = s\<lparr>cur_batch := bf\<lparr>sig := (fst (sig (cur_batch s)), snd (sig bf))\<rparr>,
                  world := wf,
                  calls := calls s @ [Perturb (cur_batch s) adv,
                                      ComputeForward (bp\<lparr>sig := (adv, snd (sig bp))\<rparr>) stage res]\<rparr>"
    by blast
  let ?t = "fst (sig (cur_batch s))"
  have same: "fst (sig (cur_batch s')) = ?t" using s' by simp
  have "tensor_data (world s') ?t = tensor_data (world s) ?t"
    if k: "(\<forall>perturb. attacker B = Attacker perturb \<longrightarrow> keeps_tensor ?t perturb)
           \<and> keeps_tensor ?t (compute_forward B stage)"
  proof -
    from k a have kp: "keeps_tensor ?t perturb" by blast
    from k have kf: "keeps_tensor ?t (compute_forward B stage)" by blast
    have "tensor_data wp ?t = tensor_data (world s) ?t"
      using kp [unfolded keeps_tensor_def, rule_format, of "cur_batch s" "world s"] p by simp
    moreover have "tensor_data wf ?t = tensor_data wp ?t"
      using kf [unfolded keeps_tensor_def, rule_format, of "bp\<lparr>sig := (adv, snd (sig bp))\<rparr>" wp] f
      by simp
    ultimately show ?thesis using s' by simp
  qed
  with same show ?thesis by simp
qed

theorem compute_forward_adversarial_restores_tensor_witness:
  "fst (compute_forward_adversarial (sample_tensor_brain False) VALID sample_tensor_state) = Inr 22
   \<and> fst (sig (cur_batch (snd (compute_forward_adversarial (sample_tensor_brain False) VALID
                                  sample_tensor_state)))) = 0
   \<and> tensor_data (world sample_tensor_state) 0 = 10
   \<and> tensor_data (world (snd (compute_forward_adversarial (sample_tensor_brain False) VALID
                                 sample_tensor_state))) 0 = 10"
proof -
  let ?run = "compute_forward_adversarial (sample_tensor_brain False) VALID sample_tensor_state"
  have r: "fst ?run = Inr 22"
    by (simp add: compute_forward_adversarial_def sample_tensor_brain_def sample_tensor_state_def
        run_defs)
  then have run: "?run = (Inr 22, snd ?run)" by (cases ?run) simp
  have t: "fst (sig (cur_batch sample_tensor_state)) = 0"
          "tensor_data (world sample_tensor_state) 0 = 10"
    by (simp_all add: sample_tensor_state_def)
  have k: "(\<forall>perturb. attacker (sample_tensor_brain False) = Attacker perturb \<longrightarrow>
                keeps_tensor (fst (sig (cur_batch sample_tensor_state))) perturb)
           \<and> keeps_tensor (fst (sig (cur_batch sample_tensor_state)))
               (compute_forward (sample_tensor_brain False) VALID)"
    by (simp add: t keeps_tensor_def sample_tensor_brain_def)
  from compute_forward_adversarial_restores_tensor [OF run] k have
    a: "fst (sig (cur_batch (snd ?run))) = fst (sig (cur_batch sample_tensor_state))" and
    b: "tensor_data (world (snd ?run)) (fst (sig (cur_batch (snd ?run)))) =
        tensor_data (world sample_tensor_state) (fst (sig (cur_batch sample_tensor_state)))"
    by blast+
  from a have a': "fst (sig (cur_batch (snd ?run))) = 0" unfolding t(1) .
  from b have "tensor_data (world (snd ?run)) 0 = 10" unfolding a' t .
  with r a' t(2) show ?thesis by blast
qed

text \<open>
  An attacker that adds its perturbation to the waveform tensor in place and returns
  that tensor: the call returns normally, \<^verbatim>\<open>batch.sig[0]\<close> is the same tensor
  object as before, and it holds 11 where it held 10. The perturbation has stayed in
  the batch.
\<close>

theorem compute_forward_adversarial_in_place_attacker:
  "fst (compute_forward_adversarial (sample_tensor_brain True) VALID sample_tensor_state) = Inr 22
   \<and> fst (sig (cur_batch sample_tensor_state)) = 0
   \<and> tensor_data (world sample_tensor_state) 0 = 10
   \<and> fst (sig (cur_batch (snd (compute_forward_adversarial (sample_tensor_brain True) VALID
                                  sample_tensor_state)))) = 0
   \<and> tensor_data (world (snd (compute_forward_adversarial (sample_tensor_brain True) VALID
                                 sample_tensor_state))) 0 = 11"
  by (simp add: compute_forward_adversarial_def sample_tensor_brain_def sample_tensor_state_def
      run_defs)

section \<open>compute\_forward\_adversarial without an attacker\<close>

text \<open>
  With an attacker the forward pass runs on the perturbed waveform
  (\<open>compute_forward_adversarial_Inr\<close>). Without one the call never returns normally:
  when \<^verbatim>\<open>self.attacker\<close> is \<^verbatim>\<open>None\<close>, the forward pass runs on the clean batch
  and then \<^verbatim>\<open>del adv_wavs\<close> raises \<^verbatim>\<open>UnboundLocalError\<close>, so its result is lost;
  when the attribute was never assigned, reading it raises \<^verbatim>\<open>AttributeError\<close>.
\<close>

lemma compute_forward_adversarial_needs_attacker:
  assumes "attacker B = IsNone \<or> attacker B = Unset"
  shows "\<exists>e. fst (compute_forward_adversarial B stage s) = Inl e"
proof (cases "compute_forward_adversarial B stage s")
  case (Pair r s')
  show ?thesis
  proof (cases r)
    case (Inl e)
    then show ?thesis using Pair by simp
  next
    case (Inr res)
    with Pair compute_forward_adversarial_Inr [of B stage s res s'] assms
    show ?thesis by auto
  qed
qed

lemma compute_forward_adversarial_none:
  assumes "attacker B = IsNone" and "stage \<noteq> ATTACK"
      and "compute_forward B stage (cur_batch s, world s) = (Inr res, bf, wf)"
  shows "compute_forward_adversarial B stage s =
     (Inl (UnboundLocalError ''adv_wavs''),
      s\<lparr>cur_batch := bf\<lparr>sig := (fst (sig (cur_batch s)), snd (sig bf))\<rparr>, world := wf,
        calls := calls s @ [ComputeForward (cur_batch s) stage res]\<rparr>)"
  using assms by (simp add: compute_forward_adversarial_def run_defs)

text \<open>
  C2, where the code departs from it. On the sample brain with \<^verbatim>\<open>attacker = None\<close>
  the call computes \<^verbatim>\<open>compute_forward\<close> on the unperturbed batch and raises
  \<^verbatim>\<open>UnboundLocalError\<close> instead of returning the result; with the attribute unset it
  raises \<^verbatim>\<open>AttributeError\<close> before any forward pass.
\<close>

theorem compute_forward_adversarial_without_attacker:
  "compute_forward_adversarial (sample_brain\<lparr>attacker := IsNone\<rparr>) VALID sample_state =
     (Inl (UnboundLocalError ''adv_wavs''),
      \<lparr>cur_batch = \<lparr>sig = (10, 1)\<rparr>, step = 0, world = 1,
       calls = [ComputeForward \<lparr>sig = (10, 1)\<rparr> VALID 20]\<rparr>)
   \<and> compute_forward_adversarial (sample_brain\<lparr>attacker := Unset\<rparr>) VALID sample_state =
     (Inl (AttributeError ''attacker''), sample_state)"
  by (simp add: compute_forward_adversarial_def sample_brain_def sample_state_def run_defs)

section \<open>fit\_batch\_adversarial: the calls of one training step\<close>

lemma calls_call:
  "call ev f s = (Inr r, s') \<Longrightarrow> calls s' = calls s @ [ev r (cur_batch s)]"
  by (auto simp add: call_Inr_iff)

lemma calls_act: "act B e s = (Inr u, s') \<Longrightarrow> calls s' = calls s @ [e]"
  unfolding act_def by (drule calls_call) simp

lemma calls_act_if:
  "(if ok then act B e else ret ()) s = (Inr u, s') \<Longrightarrow>
   calls s' = calls s @ (if ok then [e] else [])"
  by (cases ok) (auto simp add: ret_Inr_iff dest: calls_act)

lemma calls_compute_forward_adversarial:
  assumes "compute_forward_adversarial B stage s = (Inr res, s')"
  shows "\<exists>adv b2. fst (sig b2) = adv \<and>
           calls s' = calls s @ [Perturb (cur_batch s) adv, ComputeForward b2 stage res]"
  using compute_forward_adversarial_Inr [OF assms] by auto

lemma with_autocast_Inr:
  assumes "with_autocast B body s = (Inr r, s')"
  shows "\<exists>s1 s2. act B AutocastEnter s = (Inr (), s1) \<and> body s1 = (Inr r, s2) \<and>
                  act B AutocastExit s2 = (Inr (), s')"
  using assms
  by (auto simp add: with_autocast_def split: prod.splits sum.splits)

text \<open>
  \<^verbatim>\<open>fit_batch_adversarial\<close> returns normally, in the plain and in the
  mixed-precision branch, when the brain has an attacker and its collaborators return.
\<close>

lemma always_returns_ret: "always_returns (ret x)"
  by (simp add: always_returns_def ret_def)

lemma always_returns_bnd:
  assumes "always_returns m" and "\<And>x. always_returns (k x)"
  shows "always_returns (bnd m k)"
  unfolding always_returns_def
proof
  fix s
  from assms(1) obtain x s1 where m: "m s = (Inr x, s1)"
    unfolding always_returns_def by blast
  from assms(2) [of x] obtain y s2 where "k x s1 = (Inr y, s2)"
    unfolding always_returns_def by blast
  with m show "\<exists>y s'. bnd m k s = (Inr y, s')" by (simp add: bnd_def)
qed

lemma call_returns:
  assumes "total_ext f"
  shows "\<exists>r s'. call ev f s = (Inr r, s')"
proof -
  from assms obtain r b w where "f (cur_batch s, world s) = (Inr r, b, w)"
    unfolding total_ext_def by blast
  then show ?thesis by (simp add: call_def)
qed

lemma always_returns_call: "total_ext f \<Longrightarrow> always_returns (call ev f)"
  by (simp add: always_returns_def call_returns)

lemma always_returns_act: "total_ext (effect B e) \<Longrightarrow> always_returns (act B e)"
  unfolding act_def by (rule always_returns_call)

lemma always_returns_get_batch: "always_returns get_batch"
  by (simp add: always_returns_def get_batch_def)

lemma always_returns_modify_batch: "always_returns (modify_batch g)"
  by (simp add: always_returns_def modify_batch_def)

lemma compute_forward_adversarial_returns:
  assumes "stage \<noteq> ATTACK" and "attacker B = Attacker perturb" and "total_ext perturb"
      and "total_ext (compute_forward B stage)"
  shows "\<exists>res s'. compute_forward_adversarial B stage s = (Inr res, s')"
proof -
  from assms(3) obtain adv bp wp where
    p: "perturb (cur_batch s, world s) = (Inr adv, bp, wp)"
    unfolding total_ext_def by blast
  from assms(4) obtain res bf wf where
    f: "compute_forward B stage (bp\<lparr>sig := (adv, snd (sig bp))\<rparr>, wp) = (Inr res, bf, wf)"
    unfolding total_ext_def by blast
  show ?thesis
    by (simp add: compute_forward_adversarial_def assms(1,2) p f run_defs)
qed

lemma always_returns_compute_forward_adversarial:
  assumes "stage \<noteq> ATTACK" and "attacker B = Attacker perturb" and "total_ext perturb"
      and "total_ext (compute_forward B stage)"
  shows "always_returns (compute_forward_adversarial B stage)"
  unfolding always_returns_def
  using compute_forward_adversarial_returns [OF assms] by blast

lemma always_returns_with_autocast:
  assumes "total_ext (effect B AutocastEnter)" and "total_ext (effect B AutocastExit)"
      and "always_returns body"
  shows "always_returns (with_autocast B body)"
  unfolding always_returns_def
proof
  fix s
  from always_returns_act [OF assms(1)] obtain u1 s1 where
    e: "act B AutocastEnter s = (Inr u1, s1)" unfolding always_returns_def by blast
  from assms(3) obtain r s2 where b: "body s1 = (Inr r, s2)"
    unfolding always_returns_def by blast
  from always_returns_act [OF assms(2)] obtain u3 s3 where
    x: "act B AutocastExit s2 = (Inr u3, s3)" unfolding always_returns_def by blast
  from e b x show "\<exists>x s'. with_autocast B body s = (Inr x, s')"
    by (simp add: with_autocast_def)
qed

lemma fit_batch_adversarial_returns:
  assumes "attacker B = Attacker perturb" and "total_ext perturb"
      and "total_ext (compute_forward B TRAIN)"
      and "\<And>p. total_ext (compute_objectives B p TRAIN False)"
      and "\<And>l. total_ext (check_gradients B l)"
      and "\<And>e. total_ext (effect B e)"
  shows "\<exists>r s'. fit_batch_adversarial B s = (Inr r, s')"
proof -
  have fwd: "always_returns (compute_forward_adversarial B TRAIN)"
    using assms(1-3) by (intro always_returns_compute_forward_adversarial) simp_all
  have "always_returns (fit_batch_adversarial B)"
    unfolding fit_batch_adversarial_def
    using fwd assms(4-6)
    by (auto intro!: always_returns_bnd always_returns_call always_returns_ret
        always_returns_act always_returns_with_autocast)
  then show ?thesis unfolding always_returns_def by blast
qed

text \<open>
  C5. When \<^verbatim>\<open>fit_batch_adversarial\<close> returns normally, it returns the loss detached
  and moved to the CPU, and the calls it made are, in order: the attacker on the batch,
  \<^verbatim>\<open>compute_forward\<close> on the batch with the perturbed waveform,
  \<^verbatim>\<open>compute_objectives\<close> on its output, the backward pass, \<^verbatim>\<open>check_gradients\<close>
  on the loss, the optimizer step exactly when the check passed, and
  \<^verbatim>\<open>zero_grad\<close>: after the step in the plain branch, before the forward pass in the
  mixed-precision branch, where the forward pass and the loss are inside the autocast
  context and the scaler does the backward pass, the unscaling, the step and its own
  update.
\<close>

theorem fit_batch_adversarial_calls:
  assumes "fit_batch_adversarial B s = (Inr r, s')"
  shows "\<exists>b1 adv b2 outputs b3 loss ok.
           r = detach_cpu B loss \<and> fst (sig b2) = adv \<and>
           calls s' = calls s @
             (if auto_mix_prec B
              then [ZeroGrad, AutocastEnter, Perturb b1 adv, ComputeForward b2 TRAIN outputs,
                    ComputeObjectives outputs b3 TRAIN False loss, AutocastExit,
                    ScaleBackward loss, Unscale, CheckGradients loss ok]
                   @ (if ok then [ScalerStep] else []) @ [ScalerUpdate]
              else [Perturb b1 adv, ComputeForward b2 TRAIN outputs,
                    ComputeObjectives outputs b3 TRAIN False loss,
                    Backward loss, CheckGradients loss ok]
                   @ (if ok then [OptimizerStep] else []) @ [ZeroGrad])"
proof (cases "auto_mix_prec B")
  case False
  from assms False obtain outputs s1 loss s2 s3 ok s4 s5 where
    fwd: "compute_forward_adversarial B TRAIN s = (Inr outputs, s1)" and
    obj: "call (\<lambda>loss b. ComputeObjectives outputs b TRAIN False loss)
            (compute_objectives B outputs TRAIN False) s1 = (Inr loss, s2)" and
    bwd: "act B (Backward loss) s2 = (Inr (), s3)" and
    chk: "call (\<lambda>ok _. CheckGradients loss ok) (check_gradients B loss) s3 = (Inr ok, s4)" and
    stp: "(if ok then act B OptimizerStep else ret ()) s4 = (Inr (), s5)" and
    zer: "act B ZeroGrad s5 = (Inr (), s')" and
    r: "r = detach_cpu B loss"
    by (auto simp add: fit_batch_adversarial_def bnd_Inr_iff ret_Inr_iff)
  from calls_compute_forward_adversarial [OF fwd] obtain adv b2 where
    c1: "fst (sig b2) = adv"
        "calls s1 = calls s @ [Perturb (cur_batch s) adv, ComputeForward b2 TRAIN outputs]"
    by blast
  have "calls s' = calls s @
      ([Perturb (cur_batch s) adv, ComputeForward b2 TRAIN outputs,
        ComputeObjectives outputs (cur_batch s1) TRAIN False loss,
        Backward loss, CheckGradients loss ok]
       @ (if ok then [OptimizerStep] else []) @ [ZeroGrad])"
    using c1(2) calls_call [OF obj] calls_act [OF bwd] calls_call [OF chk] calls_act_if [OF stp]
      calls_act [OF zer]
    by simp
  then show ?thesis using False r c1(1)
    by - (rule exI [of _ "cur_batch s"], rule exI [of _ adv], rule exI [of _ b2],
          rule exI [of _ outputs], rule exI [of _ "cur_batch s1"], rule exI [of _ loss],
          rule exI [of _ ok], simp)
next
  case True
  from assms True obtain s0 loss s2 s3 s4 ok s5 s6 where
    zer: "act B ZeroGrad s = (Inr (), s0)" and
    ctx: "with_autocast B
               (bnd (compute_forward_adversarial B TRAIN) (\<lambda>outputs.
                call (\<lambda>loss b. ComputeObjectives outputs b TRAIN False loss)
                  (compute_objectives B outputs TRAIN False))) s0 = (Inr loss, s2)" and
    bwd: "act B (ScaleBackward loss) s2 = (Inr (), s3)" and
    uns: "act B Unscale s3 = (Inr (), s4)" and
    chk: "call (\<lambda>ok _. CheckGradients loss ok) (check_gradients B loss) s4 = (Inr ok, s5)" and
    stp: "(if ok then act B ScalerStep else ret ()) s5 = (Inr (), s6)" and
    upd: "act B ScalerUpdate s6 = (Inr (), s')" and
    r: "r = detach_cpu B loss"
    by (auto simp add: fit_batch_adversarial_def bnd_Inr_iff ret_Inr_iff)
  from with_autocast_Inr [OF ctx] obtain sa sb outputs sc where
    ent: "act B AutocastEnter s0 = (Inr (), sa)" and
    fwd: "compute_forward_adversarial B TRAIN sa = (Inr outputs, sc)" and
    obj: "call (\<lambda>loss b. ComputeObjectives outputs b TRAIN False loss)
            (compute_objectives B outputs TRAIN False) sc = (Inr loss, sb)" and
    ext: "act B AutocastExit sb = (Inr (), s2)"
    by (auto simp add: bnd_Inr_iff)
  from calls_compute_forward_adversarial [OF fwd] obtain adv b2 where
    c1: "fst (sig b2) = adv"
        "calls sc = calls sa @ [Perturb (cur_batch sa) adv, ComputeForward b2 TRAIN outputs]"
    by blast
  have "calls s' = calls s @
      ([ZeroGrad, AutocastEnter, Perturb (cur_batch sa) adv, ComputeForward b2 TRAIN outputs,
        ComputeObjectives outputs (cur_batch sc) TRAIN False loss, AutocastExit,
        ScaleBackward loss, Unscale, CheckGradients loss ok]
       @ (if ok then [ScalerStep] else []) @ [ScalerUpdate])"
    using calls_act [OF zer] calls_act [OF ent] c1(2) calls_call [OF obj] calls_act [OF ext]
      calls_act [OF bwd] calls_act [OF uns] calls_call [OF chk] calls_act_if [OF stp]
      calls_act [OF upd]
    by simp
  then show ?thesis using True r c1(1)
    by - (rule exI [of _ "cur_batch sa"], rule exI [of _ adv], rule exI [of _ b2],
          rule exI [of _ outputs], rule exI [of _ "cur_batch sc"], rule exI [of _ loss],
          rule exI [of _ ok], simp)
qed

theorem fit_batch_adversarial_calls_witness:
  "fst (fit_batch_adversarial sample_brain sample_state) = Inr 23
   \<and> calls (snd (fit_batch_adversarial sample_brain sample_state)) =
       [Perturb \<lparr>sig = (10, 1)\<rparr> 11, ComputeForward \<lparr>sig = (11, 1)\<rparr> TRAIN 22,
        ComputeObjectives 22 \<lparr>sig = (10, 1)\<rparr> TRAIN False 23,
        Backward 23, CheckGradients 23 True, OptimizerStep, ZeroGrad]
   \<and> fst (fit_batch_adversarial (sample_brain\<lparr>auto_mix_prec := True\<rparr>) sample_state) = Inr 23
   \<and> calls (snd (fit_batch_adversarial (sample_brain\<lparr>auto_mix_prec := True\<rparr>) sample_state)) =
       [ZeroGrad, AutocastEnter, Perturb \<lparr>sig = (10, 1)\<rparr> 11,
        ComputeForward \<lparr>sig = (11, 1)\<rparr> TRAIN 22,
        ComputeObjectives 22 \<lparr>sig = (10, 1)\<rparr> TRAIN False 23, AutocastExit,
        ScaleBackward 23, Unscale, CheckGradients 23 True, ScalerStep, ScalerUpdate]
   \<and> fst (fit_batch_adversarial (sample_brain\<lparr>auto_mix_prec := True\<rparr>)
              (sample_state\<lparr>cur_batch := \<lparr>sig = (60, 1)\<rparr>\<rparr>)) = Inr 123
   \<and> calls (snd (fit_batch_adversarial (sample_brain\<lparr>auto_mix_prec := True\<rparr>)
              (sample_state\<lparr>cur_batch := \<lparr>sig = (60, 1)\<rparr>\<rparr>))) =
       [ZeroGrad, AutocastEnter, Perturb \<lparr>sig = (60, 1)\<rparr> 61,
        ComputeForward \<lparr>sig = (61, 1)\<rparr> TRAIN 122,
        ComputeObjectives 122 \<lparr>sig = (60, 1)\<rparr> TRAIN False 123, AutocastExit,
        ScaleBackward 123, Unscale, CheckGradients 123 False, ScalerUpdate]
   \<and> (\<exists>b1 adv b2 outputs b3 loss ok.
         (23::int) = detach_cpu (sample_brain) loss \<and> fst (sig b2) = adv \<and>
         calls (snd (fit_batch_adversarial (sample_brain) sample_state)) =
           calls sample_state @
             (if auto_mix_prec (sample_brain)
              then [ZeroGrad, AutocastEnter, Perturb b1 adv, ComputeForward b2 TRAIN outputs,
                    ComputeObjectives outputs b3 TRAIN False loss, AutocastExit,
                    ScaleBackward loss, Unscale, CheckGradients loss ok]
                   @ (if ok then [ScalerStep] else []) @ [ScalerUpdate]
              else [Perturb b1 adv, ComputeForward b2 TRAIN outputs,
                    ComputeObjectives outputs b3 TRAIN False loss,
                    Backward loss, CheckGradients loss ok]
                   @ (if ok then [OptimizerStep] else []) @ [ZeroGrad]))
   \<and> (\<exists>b1 adv b2 outputs b3 loss ok.
         (23::int) = detach_cpu (sample_brain\<lparr>auto_mix_prec := True\<rparr>) loss \<and> fst (sig b2) = adv \<and>
         calls (snd (fit_batch_adversarial (sample_brain\<lparr>auto_mix_prec := True\<rparr>) sample_state)) =
           calls sample_state @
             (if auto_mix_prec (sample_brain\<lparr>auto_mix_prec := True\<rparr>)
              then [ZeroGrad, AutocastEnter, Perturb b1 adv, ComputeForward b2 TRAIN outputs,
                    ComputeObjectives outputs b3 TRAIN False loss, AutocastExit,
                    ScaleBackward loss, Unscale, CheckGradients loss ok]
                   @ (if ok then [ScalerStep] else []) @ [ScalerUpdate]
              else [Perturb b1 adv, ComputeForward b2 TRAIN outputs,
                    ComputeObjectives outputs b3 TRAIN False loss,
                    Backward loss, CheckGradients loss ok]
                   @ (if ok then [OptimizerStep] else []) @ [ZeroGrad]))"
proof -
  let ?run = "fit_batch_adversarial sample_brain sample_state"
  let ?amp = "fit_batch_adversarial (sample_brain\<lparr>auto_mix_prec := True\<rparr>) sample_state"
  let ?fail = "fit_batch_adversarial (sample_brain\<lparr>auto_mix_prec := True\<rparr>)
              (sample_state\<lparr>cur_batch := \<lparr>sig = (60, 1)\<rparr>\<rparr>)"
  have r: "fst ?run = Inr 23" and c: "calls (snd ?run) =
       [Perturb \<lparr>sig = (10, 1)\<rparr> 11, ComputeForward \<lparr>sig = (11, 1)\<rparr> TRAIN 22,
        ComputeObjectives 22 \<lparr>sig = (10, 1)\<rparr> TRAIN False 23,
        Backward 23, CheckGradients 23 True, OptimizerStep, ZeroGrad]"
    by (simp_all add: fit_batch_adversarial_def compute_forward_adversarial_def sample_brain_def
        sample_state_def run_defs)
  have ra: "fst ?amp = Inr 23" and ca: "calls (snd ?amp) =
       [ZeroGrad, AutocastEnter, Perturb \<lparr>sig = (10, 1)\<rparr> 11,
        ComputeForward \<lparr>sig = (11, 1)\<rparr> TRAIN 22,
        ComputeObjectives 22 \<lparr>sig = (10, 1)\<rparr> TRAIN False 23, AutocastExit,
        ScaleBackward 23, Unscale, CheckGradients 23 True, ScalerStep, ScalerUpdate]"
    by (simp_all add: fit_batch_adversarial_def compute_forward_adversarial_def
        with_autocast_def sample_brain_def sample_state_def run_defs)
  have rf: "fst ?fail = Inr 123" and cf: "calls (snd ?fail) =
       [ZeroGrad, AutocastEnter, Perturb \<lparr>sig = (60, 1)\<rparr> 61,
        ComputeForward \<lparr>sig = (61, 1)\<rparr> TRAIN 122,
        ComputeObjectives 122 \<lparr>sig = (60, 1)\<rparr> TRAIN False 123, AutocastExit,
        ScaleBackward 123, Unscale, CheckGradients 123 False, ScalerUpdate]"
    by (simp_all add: fit_batch_adversarial_def compute_forward_adversarial_def
        with_autocast_def sample_brain_def sample_state_def run_defs)
  from r have "?run = (Inr 23, snd ?run)" by (cases ?run) simp
  note plain = fit_batch_adversarial_calls [OF this]
  from ra have "?amp = (Inr 23, snd ?amp)" by (cases ?amp) simp
  note amp = fit_batch_adversarial_calls [OF this]
  from plain amp r c ra ca rf cf show ?thesis by (intro conjI)
qed

section \<open>The evaluation loops: every batch twice, two averages\<close>

lemma get_step_Inr_iff: "get_step s = (Inr n, s') \<longleftrightarrow> n = step s \<and> s' = s"
  by (auto simp add: get_step_def)

lemma set_step_Inr_iff: "set_step n s = (Inr u, s') \<longleftrightarrow> s' = s\<lparr>step := n\<rparr>"
  by (auto simp add: set_step_def)

lemma step_call: "call ev f s = (Inr r, s') \<Longrightarrow> step s' = step s"
  by (auto simp add: call_Inr_iff)

lemma step_act: "act B e s = (Inr u, s') \<Longrightarrow> step s' = step s"
  unfolding act_def by (rule step_call)

lemma evaluate_batch_adversarial_Inr:
  assumes "evaluate_batch_adversarial B stage s = (Inr adv_loss, s')"
  shows "\<exists>adv b2 out b3 raw.
           calls s' = calls s @ [Perturb (cur_batch s) adv, ComputeForward b2 stage out,
                                 ComputeObjectives out b3 stage True raw] \<and>
           fst (sig b2) = adv \<and> adv_loss = detach_cpu B raw \<and> step s' = step s"
proof -
  from assms obtain out s1 raw where
    fwd: "compute_forward_adversarial B stage s = (Inr out, s1)" and
    obj: "call (\<lambda>loss b. ComputeObjectives out b stage True loss)
            (compute_objectives B out stage True) s1 = (Inr raw, s')" and
    r: "adv_loss = detach_cpu B raw"
    by (auto simp add: evaluate_batch_adversarial_def bnd_Inr_iff ret_Inr_iff)
  from calls_compute_forward_adversarial [OF fwd] obtain adv b2 where
    c: "fst (sig b2) = adv"
       "calls s1 = calls s @ [Perturb (cur_batch s) adv, ComputeForward b2 stage out]"
    by blast
  have st: "step s1 = step s"
    using compute_forward_adversarial_Inr [OF fwd] by auto
  have "calls s' = calls s @ [Perturb (cur_batch s) adv, ComputeForward b2 stage out,
                                 ComputeObjectives out (cur_batch s1) stage True raw]"
    using c(2) calls_call [OF obj] by simp
  then show ?thesis using c(1) r st step_call [OF obj]
    by - (rule exI [of _ adv], rule exI [of _ b2], rule exI [of _ out],
          rule exI [of _ "cur_batch s1"], rule exI [of _ raw], simp)
qed

lemma eval_loop_body_Inr:
  assumes "eval_loop_body B stage b (avg, adv) s = (Inr acc', s')"
  shows "\<exists>loss adv_loss seg.
           evaluated_twice B stage b (loss, adv_loss, seg) \<and>
           calls s' = calls s @ seg \<and>
           acc' = (update_average B loss avg (step s + 1),
                   update_average B adv_loss adv (step s + 1)) \<and>
           step s' = step s + 1"
proof -
  let ?s0 = "s\<lparr>cur_batch := b\<rparr>\<lparr>step := step s + 1\<rparr>"
  from assms obtain loss s1 adv_loss where
    ev: "call (\<lambda>loss bb. EvaluateBatch bb stage loss) (evaluate_batch B stage) ?s0 =
           (Inr loss, s1)" and
    ad: "evaluate_batch_adversarial B stage s1 = (Inr adv_loss, s')" and
    acc: "acc' = (update_average B loss avg (step s1), update_average B adv_loss adv (step s'))"
    by (auto simp add: eval_loop_body_def bnd_Inr_iff ret_Inr_iff get_step_Inr_iff
        set_step_Inr_iff modify_batch_Inr_iff)
  have s1: "step s1 = step s + 1" using step_call [OF ev] by simp
  have c1: "calls s1 = calls s @ [EvaluateBatch b stage loss]"
    using calls_call [OF ev] by simp
  from evaluate_batch_adversarial_Inr [OF ad] obtain a b2 out b3 raw where
    c2: "calls s' = calls s1 @ [Perturb (cur_batch s1) a, ComputeForward b2 stage out,
                                 ComputeObjectives out b3 stage True raw]"
        "fst (sig b2) = a" "adv_loss = detach_cpu B raw" "step s' = step s1"
    by blast
  let ?seg = "[EvaluateBatch b stage loss, Perturb (cur_batch s1) a, ComputeForward b2 stage out,
               ComputeObjectives out b3 stage True raw]"
  have "evaluated_twice B stage b (loss, adv_loss, ?seg)"
    unfolding evaluated_twice_def using c2(2,3) by auto
  moreover have "calls s' = calls s @ ?seg" using c1 c2(1) by simp
  moreover have "acc' = (update_average B loss avg (step s + 1),
                   update_average B adv_loss adv (step s + 1))"
    using acc s1 c2(4) by simp
  moreover have "step s' = step s + 1" using s1 c2(4) by simp
  ultimately show ?thesis by blast
qed

lemma processed_batches_Cons_stop:
  assumes "debug B \<and> n + 1 = debug_batches B"
  shows "processed_batches B n (b # rest) = [b]"
proof -
  have "nat (debug_batches B - n) = 1" using assms by auto
  then show ?thesis using assms by (auto simp add: processed_batches_def)
qed

lemma processed_batches_Cons_go:
  assumes "\<not> (debug B \<and> n + 1 = debug_batches B)"
  shows "processed_batches B n (b # rest) = b # processed_batches B (n + 1) rest"
proof (cases "debug B \<and> n < debug_batches B \<and> debug_batches B - n \<le> int (length (b # rest))")
  case True
  then have k: "nat (debug_batches B - n) = Suc (nat (debug_batches B - (n + 1)))"
    using assms by auto
  have "debug B \<and> n + 1 < debug_batches B \<and> debug_batches B - (n + 1) \<le> int (length rest)"
    using True assms by auto
  then show ?thesis using True k by (simp add: processed_batches_def)
next
  case False
  then have r: "\<not> (debug B \<and> n + 1 < debug_batches B
               \<and> debug_batches B - (n + 1) \<le> int (length rest))"
    by auto
  have "processed_batches B n (b # rest) = b # rest"
    unfolding processed_batches_def by (simp only: False if_False)
  moreover have "processed_batches B (n + 1) rest = rest"
    unfolding processed_batches_def by (simp only: r if_False)
  ultimately show ?thesis by simp
qed

lemma eval_loop_Inr:
  assumes "eval_loop B stage batches acc s = (Inr acc', s')"
  shows "\<exists>rows.
           list_all2 (evaluated_twice B stage) (processed_batches B (step s) batches) rows \<and>
           calls s' = calls s @ concat (map (\<lambda>row. snd (snd row)) rows) \<and>
           acc' = running_averages B acc (step s) rows"
  using assms
proof (induction batches arbitrary: acc s)
  case Nil
  then show ?case
    by (auto simp add: ret_Inr_iff processed_batches_def intro!: exI [of _ "[]"])
next
  case (Cons b rest)
  obtain avg adv where acc: "acc = (avg, adv)" by (cases acc)
  from Cons.prems obtain acc1 s1 where
    body: "eval_loop_body B stage b (avg, adv) s = (Inr acc1, s1)" and
    cont: "(if debug B \<and> step s1 = debug_batches B then ret acc1
            else eval_loop B stage rest acc1) s1 = (Inr acc', s')"
    by (auto simp add: acc bnd_Inr_iff get_step_Inr_iff)
  from eval_loop_body_Inr [OF body] obtain loss adv_loss seg where
    row: "evaluated_twice B stage b (loss, adv_loss, seg)" and
    c1: "calls s1 = calls s @ seg" and
    a1: "acc1 = (update_average B loss avg (step s + 1),
                 update_average B adv_loss adv (step s + 1))" and
    st: "step s1 = step s + 1"
    by blast
  show ?case
  proof (cases "debug B \<and> step s + 1 = debug_batches B")
    case True
    with cont st have e: "acc' = acc1" "s' = s1" by (auto simp add: ret_Inr_iff)
    have "list_all2 (evaluated_twice B stage) (processed_batches B (step s) (b # rest))
            [(loss, adv_loss, seg)]"
      using row True by (simp add: processed_batches_Cons_stop)
    moreover have "calls s' = calls s @ concat (map (\<lambda>row. snd (snd row)) [(loss, adv_loss, seg)])"
      using c1 e by simp
    moreover have "acc' = running_averages B acc (step s) [(loss, adv_loss, seg)]"
      using a1 e acc by simp
    ultimately show ?thesis by blast
  next
    case False
    with cont st have "eval_loop B stage rest acc1 s1 = (Inr acc', s')" by auto
    from Cons.IH [OF this] obtain rows where
      r: "list_all2 (evaluated_twice B stage) (processed_batches B (step s1) rest) rows"
         "calls s' = calls s1 @ concat (map (\<lambda>row. snd (snd row)) rows)"
         "acc' = running_averages B acc1 (step s1) rows"
      by blast
    have "list_all2 (evaluated_twice B stage) (processed_batches B (step s) (b # rest))
            ((loss, adv_loss, seg) # rows)"
      using row r(1) False st by (simp add: processed_batches_Cons_go)
    moreover have "calls s' =
        calls s @ concat (map (\<lambda>row. snd (snd row)) ((loss, adv_loss, seg) # rows))"
      using c1 r(2) by simp
    moreover have "acc' = running_averages B acc (step s) ((loss, adv_loss, seg) # rows)"
      using a1 r(3) acc st by simp
    ultimately show ?thesis by blast
  qed
qed

text \<open>
  C4. When the validation stage of \<^verbatim>\<open>fit\<close>, or \<^verbatim>\<open>evaluate\<close>, returns normally, the
  calls it made are: the stage hooks, then for every batch up to the debug cutoff, in
  order, \<^verbatim>\<open>evaluate_batch\<close> on the clean batch followed by the adversarial
  evaluation (attacker, forward pass on the perturbed waveform, \<^verbatim>\<open>compute_objectives\<close>
  with \<^verbatim>\<open>adv=True\<close>), and at the end \<^verbatim>\<open>on_stage_end\<close> with the running average of
  the clean losses and, as \<^verbatim>\<open>stage_adv_loss\<close>, the running average of the adversarial
  losses. \<^verbatim>\<open>evaluate\<close> returns the clean average.
\<close>

theorem evaluation_loops_evaluate_twice:
  "(fit_validation B epoch (Some valid_set) s = (Inr (), s') \<longrightarrow>
      (\<exists>rows.
         list_all2 (evaluated_twice B VALID) (processed_batches B (step s) valid_set) rows \<and>
         calls s' =
           calls s @ [OnStageStart VALID (Some epoch), ModulesEval]
           @ concat (map (\<lambda>row. snd (snd row)) rows)
           @ [OnStageEnd VALID (fst (running_averages B (0, 0) (step s) rows)) (Some epoch)
                (Some (snd (running_averages B (0, 0) (step s) rows)))]))
   \<and> (evaluate B test_set max_key min_key t = (Inr r, t') \<longrightarrow>
      (\<exists>rows.
         list_all2 (evaluated_twice B TEST) (processed_batches B (step t) test_set) rows \<and>
         calls t' =
           calls t @ [OnEvaluateStart max_key min_key, OnStageStart TEST None, ModulesEval]
           @ concat (map (\<lambda>row. snd (snd row)) rows)
           @ [OnStageEnd TEST (fst (running_averages B (0, 0) (step t) rows)) None
                (Some (snd (running_averages B (0, 0) (step t) rows)))] \<and>
         r = fst (running_averages B (0, 0) (step t) rows)))"
proof (intro conjI impI)
  assume "fit_validation B epoch (Some valid_set) s = (Inr (), s')"
  then obtain s1 s2 acc s3 s4 where
    a1: "act B (OnStageStart VALID (Some epoch)) s = (Inr (), s1)" and
    a2: "act B ModulesEval s1 = (Inr (), s2)" and
    lp: "eval_loop B VALID valid_set (0, 0) s2 = (Inr acc, s3)" and
    s4: "s4 = s3\<lparr>step := 0\<rparr>" and
    a3: "act B (OnStageEnd VALID (fst acc) (Some epoch) (Some (snd acc))) s4 = (Inr (), s')"
    by (auto simp add: fit_validation_def bnd_Inr_iff set_step_Inr_iff)
  have st: "step s2 = step s" using step_act [OF a1] step_act [OF a2] by simp
  from eval_loop_Inr [OF lp] obtain rows where
    r: "list_all2 (evaluated_twice B VALID) (processed_batches B (step s) valid_set) rows"
       "calls s3 = calls s2 @ concat (map (\<lambda>row. snd (snd row)) rows)"
       "acc = running_averages B (0, 0) (step s) rows"
    unfolding st by blast
  have "calls s' =
           calls s @ [OnStageStart VALID (Some epoch), ModulesEval]
           @ concat (map (\<lambda>row. snd (snd row)) rows)
           @ [OnStageEnd VALID (fst (running_averages B (0, 0) (step s) rows)) (Some epoch)
                (Some (snd (running_averages B (0, 0) (step s) rows)))]"
    using calls_act [OF a1] calls_act [OF a2] r(2,3) calls_act [OF a3] s4 by simp
  with r(1) show "\<exists>rows.
         list_all2 (evaluated_twice B VALID) (processed_batches B (step s) valid_set) rows \<and>
         calls s' =
           calls s @ [OnStageStart VALID (Some epoch), ModulesEval]
           @ concat (map (\<lambda>row. snd (snd row)) rows)
           @ [OnStageEnd VALID (fst (running_averages B (0, 0) (step s) rows)) (Some epoch)
                (Some (snd (running_averages B (0, 0) (step s) rows)))]"
    by blast
next
  assume "evaluate B test_set max_key min_key t = (Inr r, t')"
  then obtain s0 s1 s2 acc s3 s4 where
    a0: "act B (OnEvaluateStart max_key min_key) t = (Inr (), s0)" and
    a1: "act B (OnStageStart TEST None) s0 = (Inr (), s1)" and
    a2: "act B ModulesEval s1 = (Inr (), s2)" and
    lp: "eval_loop B TEST test_set (0, 0) s2 = (Inr acc, s3)" and
    a3: "act B (OnStageEnd TEST (fst acc) None (Some (snd acc))) s3 = (Inr (), s4)" and
    t': "t' = s4\<lparr>step := 0\<rparr>" and
    res: "r = fst acc"
    by (auto simp add: evaluate_def bnd_Inr_iff set_step_Inr_iff ret_Inr_iff)
  have st: "step s2 = step t"
    using step_act [OF a0] step_act [OF a1] step_act [OF a2] by simp
  from eval_loop_Inr [OF lp] obtain rows where
    r: "list_all2 (evaluated_twice B TEST) (processed_batches B (step t) test_set) rows"
       "calls s3 = calls s2 @ concat (map (\<lambda>row. snd (snd row)) rows)"
       "acc = running_averages B (0, 0) (step t) rows"
    unfolding st by blast
  have "calls t' =
           calls t @ [OnEvaluateStart max_key min_key, OnStageStart TEST None, ModulesEval]
           @ concat (map (\<lambda>row. snd (snd row)) rows)
           @ [OnStageEnd TEST (fst (running_averages B (0, 0) (step t) rows)) None
                (Some (snd (running_averages B (0, 0) (step t) rows)))]"
    using calls_act [OF a0] calls_act [OF a1] calls_act [OF a2] r(2,3) calls_act [OF a3] t'
    by simp
  with r(1) r(3) res show "\<exists>rows.
         list_all2 (evaluated_twice B TEST) (processed_batches B (step t) test_set) rows \<and>
         calls t' =
           calls t @ [OnEvaluateStart max_key min_key, OnStageStart TEST None, ModulesEval]
           @ concat (map (\<lambda>row. snd (snd row)) rows)
           @ [OnStageEnd TEST (fst (running_averages B (0, 0) (step t) rows)) None
                (Some (snd (running_averages B (0, 0) (step t) rows)))] \<and>
         r = fst (running_averages B (0, 0) (step t) rows)"
    by blast
qed

theorem evaluation_loops_evaluate_twice_witness:
  "fst (fit_validation sample_brain 1 (Some sample_batches) sample_state) = Inr ()
   \<and> calls (snd (fit_validation sample_brain 1 (Some sample_batches) sample_state)) =
       [OnStageStart VALID (Some 1), ModulesEval,
        EvaluateBatch \<lparr>sig = (10, 1)\<rparr> VALID 21, Perturb \<lparr>sig = (10, 1)\<rparr> 11,
        ComputeForward \<lparr>sig = (11, 1)\<rparr> VALID 22,
        ComputeObjectives 22 \<lparr>sig = (10, 1)\<rparr> VALID True 23,
        EvaluateBatch \<lparr>sig = (20, 1)\<rparr> VALID 41, Perturb \<lparr>sig = (20, 1)\<rparr> 21,
        ComputeForward \<lparr>sig = (21, 1)\<rparr> VALID 42,
        ComputeObjectives 42 \<lparr>sig = (20, 1)\<rparr> VALID True 43,
        OnStageEnd VALID 31 (Some 1) (Some 33)]
   \<and> (\<exists>rows.
         list_all2 (evaluated_twice sample_brain VALID)
           (processed_batches sample_brain (step sample_state) sample_batches) rows \<and>
         calls (snd (fit_validation sample_brain 1 (Some sample_batches) sample_state)) =
           calls sample_state @ [OnStageStart VALID (Some 1), ModulesEval]
           @ concat (map (\<lambda>row. snd (snd row)) rows)
           @ [OnStageEnd VALID
                (fst (running_averages sample_brain (0, 0) (step sample_state) rows)) (Some 1)
                (Some (snd (running_averages sample_brain (0, 0) (step sample_state) rows)))])
   \<and> fst (evaluate sample_brain sample_batches None None sample_state) = Inr 31
   \<and> (\<exists>rows.
         list_all2 (evaluated_twice sample_brain TEST)
           (processed_batches sample_brain (step sample_state) sample_batches) rows \<and>
         calls (snd (evaluate sample_brain sample_batches None None sample_state)) =
           calls sample_state @ [OnEvaluateStart None None, OnStageStart TEST None, ModulesEval]
           @ concat (map (\<lambda>row. snd (snd row)) rows)
           @ [OnStageEnd TEST
                (fst (running_averages sample_brain (0, 0) (step sample_state) rows)) None
                (Some (snd (running_averages sample_brain (0, 0) (step sample_state) rows)))] \<and>
         (31::rat) = fst (running_averages sample_brain (0, 0) (step sample_state) rows))"
proof -
  let ?fit = "fit_validation sample_brain 1 (Some sample_batches) sample_state"
  let ?ev = "evaluate sample_brain sample_batches None None sample_state"
  have f: "fst ?fit = Inr ()" and fc: "calls (snd ?fit) =
       [OnStageStart VALID (Some 1), ModulesEval,
        EvaluateBatch \<lparr>sig = (10, 1)\<rparr> VALID 21, Perturb \<lparr>sig = (10, 1)\<rparr> 11,
        ComputeForward \<lparr>sig = (11, 1)\<rparr> VALID 22,
        ComputeObjectives 22 \<lparr>sig = (10, 1)\<rparr> VALID True 23,
        EvaluateBatch \<lparr>sig = (20, 1)\<rparr> VALID 41, Perturb \<lparr>sig = (20, 1)\<rparr> 21,
        ComputeForward \<lparr>sig = (21, 1)\<rparr> VALID 42,
        ComputeObjectives 42 \<lparr>sig = (20, 1)\<rparr> VALID True 43,
        OnStageEnd VALID 31 (Some 1) (Some 33)]"
    by (simp_all add: fit_validation_def eval_loop_body_def evaluate_batch_adversarial_def
        compute_forward_adversarial_def sample_brain_def sample_state_def sample_batches_def
        run_defs)
  have e: "fst ?ev = Inr 31"
    by (simp add: evaluate_def eval_loop_body_def evaluate_batch_adversarial_def
        compute_forward_adversarial_def sample_brain_def sample_state_def sample_batches_def
        run_defs)
  from f have f': "?fit = (Inr (), snd ?fit)" by (cases ?fit) simp
  from e have e': "?ev = (Inr 31, snd ?ev)" by (cases ?ev) simp
  note inst = evaluation_loops_evaluate_twice [where B = sample_brain and epoch = 1
      and valid_set = sample_batches and s = sample_state and s' = "snd ?fit"
      and test_set = sample_batches and max_key = None and min_key = None
      and t = sample_state and t' = "snd ?ev" and r = 31]
  from inst f' e' f fc e show ?thesis by blast
qed

section \<open>Attribute assignment reaches the attacked brain\<close>

text \<open>An assignment to \<^verbatim>\<open>attacker\<close> itself is not passed on.\<close>

lemma setattr_same_name_skips_attacked_brain:
  "setattr h self ''attacker'' v attacker_brain = super_setattr h (Ref self) ''attacker'' v"
  by (simp add: setattr_def)

text \<open>
  C9. For a brain whose \<^verbatim>\<open>attacker\<close> attribute holds an attacker that holds, as
  \<^verbatim>\<open>asr_brain\<close>, an instance of \<^verbatim>\<open>AdvASRBrain\<close>: an assignment
  \<^verbatim>\<open>brain.name = value\<close> with a name other than \<^verbatim>\<open>attacker\<close> returns normally and
  leaves the attribute with that value on the attacked brain and on the brain itself;
  no other object and no other attribute of the two changes.
\<close>

theorem setattr_reaches_attacked_brain:
  assumes "is_adv_asr_brain (h self)"
      and "attrs (h self) ''attacker'' = Some (Ref a)"
      and "attrs (h a) ''asr_brain'' = Some (Ref b)"
      and "is_adv_asr_brain (h b)"
      and "name \<noteq> ''attacker''"
  shows "\<exists>h'. assign_attribute h self name v = Inr h' \<and>
              attrs (h' b) name = Some v \<and>
              attrs (h' self) name = Some v \<and>
              (\<forall>c. c \<noteq> b \<and> c \<noteq> self \<longrightarrow> h' c = h c) \<and>
              (\<forall>other. other \<noteq> name \<longrightarrow>
                 attrs (h' b) other = attrs (h b) other \<and>
                 attrs (h' self) other = attrs (h self) other)"
  using assms
  by (auto simp add: assign_attribute_def setattr_def hasattr_def super_setattr_def
      object_setattr_def)

theorem setattr_reaches_attacked_brain_witness:
  "\<exists>h'. assign_attribute sample_store 0 ''step'' (Val 7) = Inr h' \<and>
         attrs (h' 2) ''step'' = Some (Val 7) \<and>
         attrs (h' 0) ''step'' = Some (Val 7) \<and>
         attrs (h' 0) ''attacker'' = Some (Ref 1)"
proof -
  have "is_adv_asr_brain (sample_store 0)"
       "attrs (sample_store 0) ''attacker'' = Some (Ref 1)"
       "attrs (sample_store 1) ''asr_brain'' = Some (Ref 2)"
       "is_adv_asr_brain (sample_store 2)"
       "''step'' \<noteq> ''attacker''"
    by (simp_all add: sample_store_def)
  from setattr_reaches_attacked_brain [OF this, of "Val 7"] obtain h' where
    h: "assign_attribute sample_store 0 ''step'' (Val 7) = Inr h'"
       "attrs (h' 2) ''step'' = Some (Val 7)"
       "attrs (h' 0) ''step'' = Some (Val 7)"
       "\<forall>other. other \<noteq> ''step'' \<longrightarrow>
          attrs (h' 2) other = attrs (sample_store 2) other \<and>
          attrs (h' 0) other = attrs (sample_store 0) other"
    by blast
  from h(4) have "attrs (h' 0) ''attacker'' = attrs (sample_store 0) ''attacker''" by simp
  then have "attrs (h' 0) ''attacker'' = Some (Ref 1)" by (simp add: sample_store_def)
  with h(1-3) show ?thesis by blast
qed

section \<open>EnsembleASRBrain.compute\_objectives on a PredictionEnsemble\<close>

text \<open>
  On a \<^verbatim>\<open>PredictionEnsemble\<close> the call never returns normally, with or without
  \<^verbatim>\<open>average\<close>: a wrong number of predictions fails the assertion, the first round of
  the loop fails on \<^verbatim>\<open>predictions[i]\<close> (or on a model index out of range), and with
  no model at all \<^verbatim>\<open>torch.stack\<close> of the empty list raises.
\<close>

lemma ensemble_objectives_loop_ensemble_raises:
  assumes "py_index (asr_brains E) (case model_idx of None \<Rightarrow> int i | Some m \<Rightarrow> m) = Inr ab"
  shows "ensemble_objectives_loop E (PredictionEnsemble ps) stage model_idx (i # rest) acc s =
           (Inl (TypeError ''PredictionEnsemble object is not subscriptable''), s)"
  using assms
  by (cases acc) (simp add: bnd_lift_Inr bnd_lift_Inl ensemble_getitem_def raise_def)

lemma ensemble_objectives_loop_ensemble_error:
  "\<exists>e. fst (ensemble_objectives_loop E (PredictionEnsemble ps) stage model_idx (i # rest) acc s)
          = Inl e"
proof (cases "py_index (asr_brains E) (case model_idx of None \<Rightarrow> int i | Some m \<Rightarrow> m)")
  case (Inl e)
  then show ?thesis
    by (cases acc) (simp add: bnd_lift_Inl raise_def)
next
  case (Inr ab)
  then show ?thesis
    by (simp add: ensemble_objectives_loop_ensemble_raises)
qed

lemma ensemble_compute_objectives_never_returns:
  assumes "torch_stack T [] = Inl e0"
  shows "\<exists>e. fst (ensemble_compute_objectives T E (PredictionEnsemble ps) stage average
                    model_idx s) = Inl e"
proof (cases "length ps = nmodels E")
  case False
  then show ?thesis
    by (simp add: ensemble_compute_objectives_def raise_def)
next
  case True
  show ?thesis
  proof (cases "nmodels E")
    case 0
    then show ?thesis using True assms
      by (simp add: ensemble_compute_objectives_def ret_def bnd_def lift_def)
  next
    case (Suc n)
    then have r: "[0..<nmodels E] = 0 # [1..<nmodels E]"
      by (simp add: upt_rec)
    obtain e where "fst (ensemble_objectives_loop E (PredictionEnsemble ps) stage model_idx
                          (0 # [1..<nmodels E]) ([], None) s) = Inl e"
      using ensemble_objectives_loop_ensemble_error by blast
    then show ?thesis using True
      by (cases "ensemble_objectives_loop E (PredictionEnsemble ps) stage model_idx
                          (0 # [1..<nmodels E]) ([], None) s")
         (simp add: ensemble_compute_objectives_def r bnd_def)
  qed
qed

text \<open>
  Where the subscript is not reached, with a plain prediction for all models, the
  average is not an average either: \<^verbatim>\<open>torch.mean(loss, dim=0)\<close> is taken of the
  last model's loss (43 here), while the stacked losses are 41 and 43, of mean 42.
\<close>

lemma ensemble_average_is_last_loss:
  "fst (ensemble_compute_objectives sample_torch sample_ensemble (Plain [10, 30]) VALID True None
          sample_ensemble_state) = Inr [43]
   \<and> fst (ensemble_compute_objectives sample_torch sample_ensemble (Plain [10, 30]) VALID False
            None sample_ensemble_state) = Inr [41, 43]
   \<and> torch_mean sample_torch [41, 43] = Inr [42]"
  by (simp add: ensemble_compute_objectives_def sample_ensemble_def EnsembleASRBrain_def
      sample_model_def sample_torch_def sample_ensemble_state_def py_index_def upt_rec
      lift_def run_defs)

text \<open>
  C1, where the code departs from it. The \<^verbatim>\<open>PredictionEnsemble\<close> that the
  ensemble's own \<^verbatim>\<open>compute_forward\<close> returns for two models holds one prediction per
  model; \<^verbatim>\<open>compute_objectives\<close> with \<^verbatim>\<open>average=True\<close> on it raises
  \<^verbatim>\<open>TypeError\<close> at \<^verbatim>\<open>predictions[0]\<close>, before any loss is computed, instead of
  returning the mean of the two losses.
\<close>

theorem ensemble_compute_objectives_raises:
  "ensemble_compute_forward sample_ensemble VALID None sample_ensemble_state =
     (Inr (PredictionEnsemble [[10], [30]]),
      sample_ensemble_state
        \<lparr>world := 2,
         calls := [ComputeForward \<lparr>sig = (10, 1)\<rparr> VALID [10],
                   ComputeForward \<lparr>sig = (10, 1)\<rparr> VALID [30]]\<rparr>)
   \<and> ensemble_compute_objectives sample_torch sample_ensemble
       (PredictionEnsemble [[10], [30]]) VALID True None
       (sample_ensemble_state
          \<lparr>world := 2,
           calls := [ComputeForward \<lparr>sig = (10, 1)\<rparr> VALID [10],
                     ComputeForward \<lparr>sig = (10, 1)\<rparr> VALID [30]]\<rparr>) =
     (Inl (TypeError ''PredictionEnsemble object is not subscriptable''),
      sample_ensemble_state
        \<lparr>world := 2,
         calls := [ComputeForward \<lparr>sig = (10, 1)\<rparr> VALID [10],
                   ComputeForward \<lparr>sig = (10, 1)\<rparr> VALID [30]]\<rparr>)"
  by (simp add: ensemble_compute_forward_def ensemble_compute_objectives_def sample_ensemble_def
      EnsembleASRBrain_def sample_model_def sample_torch_def sample_ensemble_state_def
      py_index_def upt_rec ensemble_getitem_def lift_def run_defs)

end
